theory Spec2Isabelle
  imports Main
begin

section \<open>JavaScript values used by the handlers\<close>

text \<open>
  A thrown JavaScript error is a value. The handlers of \<^verbatim>\<open>src/handlers.js\<close> look at its
  \<^verbatim>\<open>name\<close>, \<^verbatim>\<open>code\<close> (a number such as 404, or a string such as
  \<^verbatim>\<open>'EntityAlreadyExists'\<close>), \<^verbatim>\<open>message\<close>, \<^verbatim>\<open>stack\<close> and \<^verbatim>\<open>body.error\<close>.
\<close>

datatype errcode = NoCode | CodeNum int | CodeStr string

text \<open>
  \<^verbatim>\<open>error.body.error\<close> is either a text or an object; an object is kept as the text
  that \<^verbatim>\<open>JSON.stringify(errorBody, null, 4)\<close> renders for it.
\<close>

datatype errbody = BodyText string | BodyObject string

record error =
  err_name :: string
  err_code :: errcode
  err_message :: string
  err_stack :: string
  err_body :: "errbody option"

type_synonym 'a result = "error + 'a"

definition TypeError :: "string \<Rightarrow> error" where
  "TypeError m =
     \<lparr>err_name = ''TypeError'', err_code = NoCode, err_message = m, err_stack = [], err_body = None\<rparr>"

definition ReferenceError :: "string \<Rightarrow> error" where
  "ReferenceError m =
     \<lparr>err_name = ''ReferenceError'', err_code = NoCode, err_message = m, err_stack = [],
      err_body = None\<rparr>"

definition AssertionError :: "string \<Rightarrow> error" where
  "AssertionError m =
     \<lparr>err_name = ''AssertionError [ERR_ASSERTION]'', err_code = CodeStr ''ERR_ASSERTION'',
      err_message = m, err_stack = [], err_body = None\<rparr>"

text \<open>The two signals of the entity stores (section 6 of the specification).\<close>

definition EntityAlreadyExists :: error where
  "EntityAlreadyExists =
     \<lparr>err_name = ''EntityAlreadyExistsError'', err_code = CodeStr ''EntityAlreadyExists'',
      err_message = ''Entity already exists'', err_stack = [], err_body = None\<rparr>"

definition ResourceNotFound :: error where
  "ResourceNotFound =
     \<lparr>err_name = ''ResourceNotFoundError'', err_code = CodeStr ''ResourceNotFound'',
      err_message = ''Resource not found'', err_stack = [], err_body = None\<rparr>"

type_synonym date = nat

section \<open>The two entity stores\<close>

record build =
  build_organization :: string
  build_repository :: string
  build_sha :: string
  build_taskGroupId :: string
  build_state :: string
  build_created :: date
  build_updated :: date
  build_installationId :: nat
  build_eventType :: string
  build_eventId :: string

record check_record =
  check_taskGroupId :: string
  check_taskId :: string
  check_checkSuiteId :: string
  check_checkRunId :: string

section \<open>Requests sent to the host platform and the job platform\<close>

datatype comment =
  IssueComment string string "nat option" string
  | CommitComment string string string string

record check_create =
  cc_owner :: string
  cc_repo :: string
  cc_name :: string
  cc_head_sha :: string
  cc_title :: string
  cc_summary :: string
  cc_details_url :: string
  cc_status :: string
  cc_conclusion :: "string option"
  cc_completed_at :: "string option"

record check_update =
  cu_owner :: string
  cu_repo :: string
  cu_check_run_id :: string
  cu_status :: string
  cu_conclusion :: "string option"
  cu_completed_at :: string

record taskdef =
  def_taskGroupId :: string

text \<open>The answer of the config compiler: \<^verbatim>\<open>{scopes, tasks: [{taskId, task}]}\<close>.\<close>

record graph_task =
  gt_taskId :: string
  gt_task :: taskdef

record graphConfig =
  gc_scopes :: "string list"
  gc_tasks :: "graph_task list"

text \<open>One page of \<^verbatim>\<open>queue.listTaskGroup\<close>: the states of the member tasks
  (\<^verbatim>\<open>task.status.state\<close>) and the continuation token, if any.\<close>

record group_page =
  page_tasks :: "string list"
  continuationToken :: "string option"

section \<open>The world the handlers act on\<close>

text \<open>
  The state that the handlers read and write: the two stores behind
  \<^verbatim>\<open>this.context.Builds\<close> and \<^verbatim>\<open>this.context.CheckRuns\<close>, and what has been sent
  to the host (comments, check-runs created, check-runs updated) and to the queue (tasks
  created, with the scopes they were created under).
\<close>

record world =
  Builds :: "string \<rightharpoonup> build"
  CheckRuns :: "string \<times> string \<rightharpoonup> check_record"
  comments :: "comment list"
  check_runs :: "check_create list"
  check_updates :: "check_update list"
  queue_tasks :: "(string list \<times> string \<times> taskdef) list"

text \<open>The client of one installation: what each call answers.\<close>

record instGithub =
  repos_getShaOfCommitRef :: "string \<Rightarrow> string \<Rightarrow> string \<Rightarrow> string result"
  repos_getContent :: "string \<Rightarrow> string \<Rightarrow> string \<Rightarrow> string \<Rightarrow> string result"
  issues_createComment :: "comment \<Rightarrow> error option"
  repos_createCommitComment :: "comment \<Rightarrow> error option"
  checks_create :: "check_create \<Rightarrow> (nat \<times> nat) result"
  checks_update :: "check_update \<Rightarrow> error option"

section \<open>Inbound messages\<close>

text \<open>
  \<^verbatim>\<open>message.payload\<close> of a job message. \<^verbatim>\<open>details\<close> is keyed by
  \<^verbatim>\<open>'event.head.sha'\<close>, \<^verbatim>\<open>'event.pullNumber'\<close>, \<^verbatim>\<open>'event.type'\<close>,
  \<^verbatim>\<open>'event.version'\<close> and \<^verbatim>\<open>'event.head.user.login'\<close>; an absent key reads as
  \<^verbatim>\<open>undefined\<close>, here \<open>None\<close>.
\<close>

record details =
  event_head_sha :: "string option"
  event_pullNumber :: "nat option"
  event_type :: string
  event_version :: "string option"
  event_head_user_login :: "string option"

record job_message =
  msg_installationId :: nat
  msg_organization :: string
  msg_repository :: string
  msg_eventId :: string
  msg_details :: details

text \<open>\<^verbatim>\<open>message.payload.status\<close> of a task-terminal-state message.\<close>

record status_message =
  sm_taskGroupId :: string
  sm_taskId :: string
  sm_state :: string

section \<open>Collaborators\<close>

text \<open>
  What the handlers are given and what they import: the fields of the Handlers object and of
  its \<^verbatim>\<open>context\<close> (\<open>intree\<close>, \<open>statusContext\<close> for
  \<^verbatim>\<open>context.cfg.app.statusContext\<close>, \<open>getInstallationGithub\<close> for
  \<^verbatim>\<open>context.github.getInstallationGithub\<close>), the answers of the queue
  (\<^verbatim>\<open>queue.createTask\<close> under the authorized scopes, \<^verbatim>\<open>queue.listTaskGroup\<close>), faults of
  the stores other than the already-exists signal, and the library functions
  \<^verbatim>\<open>yaml.safeLoad\<close>, \<^verbatim>\<open>new Buffer(_, 'base64').toString()\<close>, \<^verbatim>\<open>prAllowed\<close> (module
  \<^verbatim>\<open>./pr-allowed\<close>) and \<^verbatim>\<open>Date.prototype.toISOString\<close>. Each handler also takes
  \<open>now\<close>, the time that \<^verbatim>\<open>new Date()\<close> reads during the invocation.
\<close>

record env =
  intree :: "string \<Rightarrow> job_message \<Rightarrow> graphConfig result"
  statusContext :: string
  getInstallationGithub :: "nat \<Rightarrow> instGithub result"
  queue_createTask :: "string list \<Rightarrow> string \<Rightarrow> taskdef \<Rightarrow> error option"
  queue_listTaskGroup :: "string \<Rightarrow> string option \<Rightarrow> group_page result"
  Builds_create_fault :: "build \<Rightarrow> error option"
  CheckRuns_create_fault :: "check_record \<Rightarrow> error option"
  yaml_safeLoad :: "string \<Rightarrow> error option"
  base64_toString :: "string \<Rightarrow> string"
  prAllowed :: "string option \<Rightarrow> string \<Rightarrow> string \<Rightarrow> instGithub \<Rightarrow> job_message \<Rightarrow> bool result"
  toISOString :: "date \<Rightarrow> string"

section \<open>Store operations\<close>

definition Builds_load :: "world \<Rightarrow> string \<Rightarrow> build result" where
  "Builds_load w k = (case Builds w k of None \<Rightarrow> Inl ResourceNotFound | Some b \<Rightarrow> Inr b)"

definition CheckRuns_load :: "world \<Rightarrow> string \<times> string \<Rightarrow> check_record result" where
  "CheckRuns_load w k = (case CheckRuns w k of None \<Rightarrow> Inl ResourceNotFound | Some c \<Rightarrow> Inr c)"

text \<open>\<^verbatim>\<open>build.modify(f)\<close>: the stored record is replaced by \<open>f\<close> of it.\<close>

definition Builds_modify :: "string \<Rightarrow> (build \<Rightarrow> build) \<Rightarrow> world \<Rightarrow> world" where
  "Builds_modify k f w =
     (case Builds w k of None \<Rightarrow> w | Some b \<Rightarrow> w\<lparr>Builds := (Builds w)(k \<mapsto> f b)\<rparr>)"

text \<open>
  \<^verbatim>\<open>create\<close>: a fault of the store is raised as it is, a key collision raises the
  already-exists signal, and otherwise the record is stored.
\<close>

definition Builds_create :: "env \<Rightarrow> build \<Rightarrow> world \<Rightarrow> unit result \<times> world" where
  "Builds_create h b w =
     (case Builds_create_fault h b of
        Some e \<Rightarrow> (Inl e, w)
      | None \<Rightarrow>
          (case Builds w (build_taskGroupId b) of
             Some _ \<Rightarrow> (Inl EntityAlreadyExists, w)
           | None \<Rightarrow> (Inr (), w\<lparr>Builds := (Builds w)(build_taskGroupId b \<mapsto> b)\<rparr>)))"

definition CheckRuns_create :: "env \<Rightarrow> check_record \<Rightarrow> world \<Rightarrow> unit result \<times> world" where
  "CheckRuns_create h c w =
     (case CheckRuns_create_fault h c of
        Some e \<Rightarrow> (Inl e, w)
      | None \<Rightarrow>
          (case CheckRuns w (check_taskGroupId c, check_taskId c) of
             Some _ \<Rightarrow> (Inl EntityAlreadyExists, w)
           | None \<Rightarrow>
               (Inr (), w\<lparr>CheckRuns := (CheckRuns w)((check_taskGroupId c, check_taskId c) \<mapsto> c)\<rparr>)))"

section \<open>groupStatusHandler\<close>

text \<open>JavaScript truthiness of a value that is a string or \<^verbatim>\<open>undefined\<close>.\<close>

definition truthy :: "string option \<Rightarrow> bool" where
  "truthy v = (case v of None \<Rightarrow> False | Some s \<Rightarrow> s \<noteq> [])"

text \<open>The body of \<^verbatim>\<open>group.tasks.forEach\<close> (lines 207-211), on the state of one task.\<close>

definition forEach_task :: "string \<Rightarrow> string \<Rightarrow> string" where
  "forEach_task groupState st =
     (if st \<in> set [''failed'', ''exception''] then ''failure'' else groupState)"

text \<open>
  The \<^verbatim>\<open>do ... while (params.continuationToken)\<close> loop of lines 204-212. The queue
  decides how many pages there are, so the loop takes fuel: \<open>None\<close> is a loop that has not
  finished after that many requests.
\<close>

fun listTaskGroup_loop ::
  "nat \<Rightarrow> (string option \<Rightarrow> group_page result) \<Rightarrow> string option \<Rightarrow> string \<Rightarrow> string result option"
where
  "listTaskGroup_loop 0 q params groupState = None"
| "listTaskGroup_loop (Suc n) q params groupState =
     (case q params of
        Inl e \<Rightarrow> Some (Inl e)
      | Inr grp \<Rightarrow>
          (let groupState' = foldl forEach_task groupState (page_tasks grp)
           in if truthy (continuationToken grp)
              then listTaskGroup_loop n q (continuationToken grp) groupState'
              else Some (Inr groupState')))"

text \<open>The function passed to \<^verbatim>\<open>build.modify\<close> (lines 214-219).\<close>

definition groupStatus_modifier :: "string \<Rightarrow> date \<Rightarrow> build \<Rightarrow> build" where
  "groupStatus_modifier groupState now b =
     (if build_state b \<noteq> ''failure''
      then b\<lparr>build_state := groupState, build_updated := now\<rparr>
      else b)"

definition groupStatusHandler ::
  "nat \<Rightarrow> env \<Rightarrow> date \<Rightarrow> string \<Rightarrow> world \<Rightarrow> (unit result \<times> world) option"
where
  "groupStatusHandler fuel h now taskGroupId w =
     (case Builds_load w taskGroupId of
        Inl e \<Rightarrow> Some (Inl e, w)
      | Inr build \<Rightarrow>
          (case listTaskGroup_loop fuel (queue_listTaskGroup h taskGroupId) None ''success'' of
             None \<Rightarrow> None
           | Some (Inl e) \<Rightarrow> Some (Inl e, w)
           | Some (Inr groupState) \<Rightarrow>
               Some (Inr (), Builds_modify taskGroupId (groupStatus_modifier groupState now) w)))"

text \<open>
  The complete listing of a task group, in the words of the specification: the pages
  obtained by following the continuation tokens, from no token, until a page carries none;
  \<open>None\<close> when a request fails or the tokens are not exhausted after \<open>n\<close> requests.
\<close>

fun listing ::
  "nat \<Rightarrow> (string option \<Rightarrow> group_page result) \<Rightarrow> string option \<Rightarrow> group_page list option"
where
  "listing 0 q tok = None"
| "listing (Suc n) q tok =
     (case q tok of
        Inl e \<Rightarrow> None
      | Inr g \<Rightarrow>
          (if truthy (continuationToken g)
           then map_option ((#) g) (listing n q (continuationToken g))
           else Some [g]))"

definition member_failed :: "group_page list \<Rightarrow> bool" where
  "member_failed pages =
     list_ex (\<lambda>p. list_ex (\<lambda>st. st = ''failed'' \<or> st = ''exception'') (page_tasks p)) pages"

section \<open>statusHandler\<close>

definition CONCLUSIONS :: "string \<rightharpoonup> string" where
  "CONCLUSIONS =
     map_of [(''completed'', ''success''), (''failed'', ''failure''), (''exception'', ''failure'')]"

definition statusHandler :: "env \<Rightarrow> date \<Rightarrow> status_message \<Rightarrow> world \<Rightarrow> unit result \<times> world" where
  "statusHandler h now m w =
     (let taskGroupId = sm_taskGroupId m; taskId = sm_taskId m
      in case Builds_load w taskGroupId of
           Inl e \<Rightarrow> (Inl e, w)
         | Inr build \<Rightarrow>
             (let conclusion = CONCLUSIONS (sm_state m); completed_at = toISOString h now
              in case CheckRuns_load w (taskGroupId, taskId) of
                   Inl e \<Rightarrow> (Inl e, w)
                 | Inr checkRun \<Rightarrow>
                     (case getInstallationGithub h (build_installationId build) of
                        Inl e \<Rightarrow> (Inl e, w)
                      | Inr gh \<Rightarrow>
                          (let req = \<lparr>cu_owner = build_organization build,
                                      cu_repo = build_repository build,
                                      cu_check_run_id = check_checkRunId checkRun,
                                      cu_status = ''completed'',
                                      cu_conclusion = conclusion,
                                      cu_completed_at = completed_at\<rparr>
                           in case checks_update gh req of
                                Some e \<Rightarrow> (Inl e, w)
                              | None \<Rightarrow> (Inr (), w\<lparr>check_updates := check_updates w @ [req]\<rparr>)))))"

section \<open>Strings\<close>

definition nl :: string where
  "nl = [CHR 0x0A]"

text \<open>\<^verbatim>\<open>Array.prototype.join\<close> on an array of strings.\<close>

fun join_str :: "string \<Rightarrow> string list \<Rightarrow> string" where
  "join_str sep [] = []"
| "join_str sep [x] = x"
| "join_str sep (x # y # ys) = x @ sep @ join_str sep (y # ys)"

definition startsWith :: "string \<Rightarrow> string \<Rightarrow> bool" where
  "startsWith s p = (take (length p) s = p)"

definition endsWith :: "string \<Rightarrow> string \<Rightarrow> bool" where
  "endsWith s p = (length p \<le> length s \<and> drop (length s - length p) s = p)"

text \<open>\<^verbatim>\<open>s.split(sep)\<close> for a separator that is not empty: \<open>cur\<close> is the piece being read.\<close>

fun split_from :: "string \<Rightarrow> string \<Rightarrow> string \<Rightarrow> string list" where
  "split_from sep cur [] = [cur]"
| "split_from sep cur (c # cs) =
     (if sep \<noteq> [] \<and> startsWith (c # cs) sep
      then cur # split_from sep [] (drop (length sep - 1) cs)
      else split_from sep (cur @ [c]) cs)"

definition split :: "string \<Rightarrow> string \<Rightarrow> string list" where
  "split s sep = split_from sep [] s"

text \<open>\<^verbatim>\<open>Number.prototype.toString\<close> on a natural number.\<close>

fun toString_nat :: "nat \<Rightarrow> string" where
  "toString_nat n =
     (if n < 10 then [''0123456789'' ! n]
      else toString_nat (n div 10) @ [''0123456789'' ! (n mod 10)])"

declare toString_nat.simps [simp del]

text \<open>A value that is a string or \<^verbatim>\<open>undefined\<close>, inside a template literal.\<close>

definition template :: "string option \<Rightarrow> string" where
  "template v = (case v of None \<Rightarrow> ''undefined'' | Some s \<Rightarrow> s)"

text \<open>JavaScript truthiness of a value that is a number or \<^verbatim>\<open>undefined\<close>.\<close>

definition truthy_num :: "nat option \<Rightarrow> bool" where
  "truthy_num v = (case v of None \<Rightarrow> False | Some n \<Rightarrow> n \<noteq> 0)"

text \<open>\<^verbatim>\<open>replace(/%/g, '.')\<close> (lines 287-288).\<close>

definition unsanitize :: "string \<Rightarrow> string" where
  "unsanitize s = map (\<lambda>c. if c = CHR ''%'' then CHR ''.'' else c) s"

section \<open>Constants of the module\<close>

definition INSPECTOR_URL :: string where
  "INSPECTOR_URL = ''https://tools.taskcluster.net/task-group-inspector/#/''"

definition TITLES :: "string \<rightharpoonup> string" where
  "TITLES = map_of
     [(''success'', ''Success''),
      (''failure'', ''Failure''),
      (''neutral'', ''It is neither good nor bad''),
      (''cancelled'', ''Cancelled''),
      (''timed_out'', ''Timed out''),
      (''action_required'', ''Action required''),
      (''queued'', ''Queued''),
      (''in_progress'', ''In progress''),
      (''completed'', ''Completed'')]"

section \<open>createTasks and createExceptionComment\<close>

text \<open>
  \<^verbatim>\<open>Promise.all(tasks.map(t => queue.createTask(t.taskId, t.task)))\<close> (line 139): every
  call is made, whatever the others answer; the promise is rejected with a failure when
  there is one, here the one of the first task in the order of the list.
\<close>

fun createTasks ::
  "env \<Rightarrow> string list \<Rightarrow> graph_task list \<Rightarrow> world \<Rightarrow> error option \<times> world"
where
  "createTasks h scps [] w = (None, w)"
| "createTasks h scps (t # ts) w =
     (case queue_createTask h scps (gt_taskId t) (gt_task t) of
        Some e \<Rightarrow> (Some e, snd (createTasks h scps ts w))
      | None \<Rightarrow>
          createTasks h scps ts
            (w\<lparr>queue_tasks := queue_tasks w @ [(scps, gt_taskId t, gt_task t)]\<rparr>))"

definition errorBody :: "error \<Rightarrow> string" where
  "errorBody e =
     (case err_body e of
        None \<Rightarrow> err_message e
      | Some (BodyText s) \<Rightarrow> if s \<noteq> [] then s else err_message e
      | Some (BodyObject json) \<Rightarrow> json)"

text \<open>A call that posts a comment: on success the comment is on the host.\<close>

definition post_comment ::
  "(comment \<Rightarrow> error option) \<Rightarrow> comment \<Rightarrow> world \<Rightarrow> unit result \<times> world"
where
  "post_comment call c w =
     (case call c of
        Some e \<Rightarrow> (Inl e, w)
      | None \<Rightarrow> (Inr (), w\<lparr>comments := comments w @ [c]\<rparr>))"

definition exception_comment_body :: "error \<Rightarrow> string" where
  "exception_comment_body e =
     join_str nl
       [''<details>'' @ nl,
        ''<summary>Submitting the task to Taskcluster failed. Details</summary>'',
        [],
        errorBody e,
        [],
        ''</details>'']"

definition createExceptionComment ::
  "instGithub \<Rightarrow> string \<Rightarrow> string \<Rightarrow> string \<Rightarrow> error \<Rightarrow> nat option \<Rightarrow> world
     \<Rightarrow> unit result \<times> world"
where
  "createExceptionComment gh organization repository sha e pullNumber w =
     (let body = exception_comment_body e
      in if truthy_num pullNumber
         then post_comment (issues_createComment gh)
                (IssueComment organization repository pullNumber body) w
         else post_comment (repos_createCommitComment gh)
                (CommitComment organization repository sha body) w)"

section \<open>jobHandler\<close>

text \<open>\<^verbatim>\<open>groupState\<close>: \<^verbatim>\<open>{status}\<close> or \<^verbatim>\<open>{status, conclusion, completed_at}\<close>.\<close>

record group_state =
  gs_status :: string
  gs_conclusion :: "string option"
  gs_completed_at :: "string option"

subsection \<open>The \<^verbatim>\<open>finally\<close> block (lines 433-495)\<close>

text \<open>The argument of \<^verbatim>\<open>instGithub.checks.create\<close> for the task of index \<open>i\<close> (lines 438-453).\<close>

definition check_run_request ::
  "env \<Rightarrow> string \<Rightarrow> string \<Rightarrow> string \<Rightarrow> string \<Rightarrow> group_state \<Rightarrow> string \<Rightarrow> nat \<Rightarrow> graph_task
     \<Rightarrow> check_create"
where
  "check_run_request h organization repository sha eventType groupState taskGroupId i t =
     \<lparr>cc_owner = organization,
      cc_repo = repository,
      cc_name = ''Task '' @ toString_nat i @ '': '' @ statusContext h @ '' (''
                  @ hd (split eventType ''.'') @ '')'',
      cc_head_sha = sha,
      cc_title = ''TaskGroup: ''
                  @ template (if truthy (gs_conclusion groupState)
                              then TITLES (template (gs_conclusion groupState))
                              else TITLES (gs_status groupState))
                  @ '' (for '' @ eventType @ '')'',
      cc_summary = ''Check for '' @ eventType,
      cc_details_url = INSPECTOR_URL @ taskGroupId @ ''/tasks/'' @ gt_taskId t @ ''/details'',
      cc_status = gs_status groupState,
      cc_conclusion = gs_conclusion groupState,
      cc_completed_at = gs_completed_at groupState\<rparr>"

text \<open>The function mapped over \<^verbatim>\<open>graphConfig.tasks\<close> (lines 437-465), on one task.\<close>

definition create_check_run ::
  "env \<Rightarrow> instGithub \<Rightarrow> string \<Rightarrow> string \<Rightarrow> string \<Rightarrow> string \<Rightarrow> group_state \<Rightarrow> string \<Rightarrow> nat
     \<Rightarrow> graph_task \<Rightarrow> world \<Rightarrow> error option \<times> world"
where
  "create_check_run h gh organization repository sha eventType groupState taskGroupId i t w =
     (let req = check_run_request h organization repository sha eventType groupState taskGroupId i t
      in case checks_create gh req of
           Inl e \<Rightarrow> (Some e, w)
         | Inr (check_suite_id, check_run_id) \<Rightarrow>
             (case CheckRuns_create h
                     \<lparr>check_taskGroupId = taskGroupId,
                      check_taskId = gt_taskId t,
                      check_checkSuiteId = toString_nat check_suite_id,
                      check_checkRunId = toString_nat check_run_id\<rparr>
                     (w\<lparr>check_runs := check_runs w @ [req]\<rparr>) of
                (Inr _, w') \<Rightarrow> (None, w')
              | (Inl err, w') \<Rightarrow>
                  (if err_code err \<noteq> CodeStr ''EntityAlreadyExists'' then (Some err, w')
                   else (None, w'))))"

text \<open>
  \<^verbatim>\<open>Promise.all(graphConfig.tasks.map(async (task, i) => ...))\<close>: the function runs for
  every task, whatever happens to the others; the promise is rejected with a failure when
  there is one, here the one of the first task in the order of the list.
\<close>

fun create_check_runs ::
  "env \<Rightarrow> instGithub \<Rightarrow> string \<Rightarrow> string \<Rightarrow> string \<Rightarrow> string \<Rightarrow> group_state \<Rightarrow> string \<Rightarrow> nat
     \<Rightarrow> graph_task list \<Rightarrow> world \<Rightarrow> error option \<times> world"
where
  "create_check_runs h gh organization repository sha eventType groupState taskGroupId i [] w =
     (None, w)"
| "create_check_runs h gh organization repository sha eventType groupState taskGroupId i (t # ts) w =
     (case create_check_run h gh organization repository sha eventType groupState taskGroupId i t w of
        (r, w1) \<Rightarrow>
          (case create_check_runs h gh organization repository sha eventType groupState taskGroupId
                  (Suc i) ts w1 of
             (rs, w2) \<Rightarrow> (case r of Some e \<Rightarrow> Some e | None \<Rightarrow> rs, w2)))"

text \<open>
  \<^verbatim>\<open>this.Builds\<close> (line 484). The handler runs with the Handlers object as
  \<^verbatim>\<open>this\<close>; its constructor (lines 36-57) and \<^verbatim>\<open>setup\<close> assign \<^verbatim>\<open>rootUrl\<close>,
  \<^verbatim>\<open>credentials\<close>, \<^verbatim>\<open>monitor\<close>, \<^verbatim>\<open>reference\<close>, \<^verbatim>\<open>intree\<close>, \<^verbatim>\<open>connection\<close>,
  the three listeners, the two queue names, \<^verbatim>\<open>context\<close>, \<^verbatim>\<open>handlerComplete\<close> and
  \<^verbatim>\<open>handlerRejected\<close>, and no \<^verbatim>\<open>Builds\<close>: the store is \<^verbatim>\<open>this.context.Builds\<close>.
  So \<^verbatim>\<open>this.Builds\<close> is \<^verbatim>\<open>undefined\<close>.
\<close>

definition this_Builds :: "(string \<rightharpoonup> build) option" where
  "this_Builds = None"

definition quoted :: "string \<Rightarrow> string" where
  "quoted s = [CHR 0x27] @ s @ [CHR 0x27]"

text \<open>\<^verbatim>\<open>assert.equal(actual, expected, message)\<close> on two strings.\<close>

definition assert_equal :: "string \<Rightarrow> string \<Rightarrow> string option \<Rightarrow> error option" where
  "assert_equal actual expected msg =
     (if actual = expected then None
      else Some (AssertionError
                   (case msg of Some m \<Rightarrow> m | None \<Rightarrow> quoted actual @ '' == '' @ quoted expected)))"

text \<open>The first failure of a sequence of statements.\<close>

fun first_error :: "error option list \<Rightarrow> error option" where
  "first_error [] = None"
| "first_error (None # rs) = first_error rs"
| "first_error (Some e # rs) = Some e"

text \<open>The handler given to \<^verbatim>\<open>.catch\<close> on \<^verbatim>\<open>context.Builds.create\<close> (lines 480-494).\<close>

definition Builds_create_catch ::
  "job_message \<Rightarrow> string \<Rightarrow> string \<Rightarrow> string \<Rightarrow> string \<Rightarrow> string \<Rightarrow> error \<Rightarrow> error option"
where
  "Builds_create_catch m organization repository sha taskGroupId state err =
     (if err_code err \<noteq> CodeStr ''EntityAlreadyExists'' then Some err
      else case this_Builds of
             None \<Rightarrow> Some (TypeError (''Cannot read property '' @ quoted ''load'' @ '' of undefined''))
           | Some store \<Rightarrow>
               (case store taskGroupId of
                  None \<Rightarrow> Some ResourceNotFound
                | Some build \<Rightarrow>
                    first_error
                      [assert_equal (build_state build) state
                         (Some (''State for '' @ organization @ ''/'' @ repository @ ''@'' @ sha @ nl
                                @ ''        already exists but is set to '' @ build_state build
                                @ '' instead of '' @ state @ ''!'')),
                       assert_equal (build_organization build) organization None,
                       assert_equal (build_repository build) repository None,
                       assert_equal (build_sha build) sha None,
                       assert_equal (build_eventType build) (event_type (msg_details m)) None,
                       assert_equal (build_eventId build) (msg_eventId m) None]))"

text \<open>Lines 467-494: the Build record.\<close>

definition create_build ::
  "env \<Rightarrow> job_message \<Rightarrow> string \<Rightarrow> string \<Rightarrow> string \<Rightarrow> group_state \<Rightarrow> string \<Rightarrow> date \<Rightarrow> world
     \<Rightarrow> error option \<times> world"
where
  "create_build h m organization repository sha groupState taskGroupId now w =
     (let state = (if truthy (gs_conclusion groupState) then template (gs_conclusion groupState)
                   else gs_status groupState)
      in case Builds_create h
                \<lparr>build_organization = organization,
                 build_repository = repository,
                 build_sha = sha,
                 build_taskGroupId = taskGroupId,
                 build_state = state,
                 build_created = now,
                 build_updated = now,
                 build_installationId = msg_installationId m,
                 build_eventType = event_type (msg_details m),
                 build_eventId = msg_eventId m\<rparr> w of
           (Inr _, w') \<Rightarrow> (None, w')
         | (Inl err, w') \<Rightarrow>
             (Builds_create_catch m organization repository sha taskGroupId state err, w'))"

definition bookkeeping ::
  "env \<Rightarrow> instGithub \<Rightarrow> job_message \<Rightarrow> string \<Rightarrow> string \<Rightarrow> string \<Rightarrow> graphConfig \<Rightarrow> group_state
     \<Rightarrow> string \<Rightarrow> date \<Rightarrow> world \<Rightarrow> error option \<times> world"
where
  "bookkeeping h gh m organization repository sha graph groupState taskGroupId now w =
     (let eventType = event_type (msg_details m)
      in case create_check_runs h gh organization repository sha eventType groupState taskGroupId
                0 (gc_tasks graph) w of
           (Some e, w1) \<Rightarrow> (Some e, w1)
         | (None, w1) \<Rightarrow>
             create_build h m organization repository sha groupState taskGroupId now w1)"

subsection \<open>Task submission (lines 421-495)\<close>

text \<open>
  The \<^verbatim>\<open>try\<close> block (lines 422-424): the new value of \<^verbatim>\<open>taskGroupId\<close>, what was
  thrown, and the world. \<^verbatim>\<open>graphConfig.tasks[0]\<close> of an empty list is \<^verbatim>\<open>undefined\<close>,
  and reading \<^verbatim>\<open>.task\<close> of it throws before the assignment.
\<close>

definition submit_try ::
  "env \<Rightarrow> graphConfig \<Rightarrow> string \<Rightarrow> world \<Rightarrow> string \<times> error option \<times> world"
where
  "submit_try h graph taskGroupId w =
     (case gc_tasks graph of
        [] \<Rightarrow>
          (taskGroupId,
           Some (TypeError (''Cannot read property '' @ quoted ''task'' @ '' of undefined'')), w)
      | t0 # _ \<Rightarrow>
          (case createTasks h (gc_scopes graph) (gc_tasks graph) w of
             (r, w') \<Rightarrow> (def_taskGroupId (gt_task t0), r, w')))"

text \<open>
  \<^verbatim>\<open>try\<close>, \<^verbatim>\<open>catch\<close> and \<^verbatim>\<open>finally\<close>. The \<^verbatim>\<open>catch\<close> block calls
  \<^verbatim>\<open>createExceptionComment\<close> with no \<^verbatim>\<open>pullNumber\<close>. The \<^verbatim>\<open>finally\<close> block always
  runs; what it throws replaces what the \<^verbatim>\<open>catch\<close> block threw.
\<close>

definition submit ::
  "env \<Rightarrow> instGithub \<Rightarrow> job_message \<Rightarrow> string \<Rightarrow> string \<Rightarrow> string \<Rightarrow> graphConfig \<Rightarrow> date \<Rightarrow> world
     \<Rightarrow> unit result \<times> world"
where
  "submit h gh m organization repository sha graph now w =
     (case submit_try h graph ''nonexistent'' w of
        (taskGroupId, None, w1) \<Rightarrow>
          (case bookkeeping h gh m organization repository sha graph
                  \<lparr>gs_status = ''queued'', gs_conclusion = None, gs_completed_at = None\<rparr>
                  taskGroupId now w1 of
             (Some e, w2) \<Rightarrow> (Inl e, w2)
           | (None, w2) \<Rightarrow> (Inr (), w2))
      | (taskGroupId, Some e, w1) \<Rightarrow>
          (case createExceptionComment gh organization repository sha e None w1 of
             (thrown, w2) \<Rightarrow>
               (case bookkeeping h gh m organization repository sha graph
                       \<lparr>gs_status = ''completed'', gs_conclusion = Some ''failure'',
                        gs_completed_at = Some (toISOString h now)\<rparr>
                       taskGroupId now w2 of
                  (Some e', w3) \<Rightarrow> (Inl e', w3)
                | (None, w3) \<Rightarrow> (thrown, w3))))"

subsection \<open>The permission check (lines 371-419)\<close>

definition permission_denied_body :: string where
  "permission_denied_body =
     join_str nl
       [''<details>'' @ nl,
        ''<summary>No Taskcluster jobs started for this pull request</summary>'' @ nl @ nl,
        ''```js'' @ nl,
        ''The `allowPullRequests` configuration for this repository (in `.taskcluster.yml` on the'',
        ''default branch) does not allow starting tasks for this pull request.'',
        ''```'' @ nl,
        ''</details>'']"

text \<open>
  The variable \<^verbatim>\<open>branch\<close> of line 405. No declaration of it is in scope: none in
  \<^verbatim>\<open>jobHandler\<close>, none at the top of the module, and it is not a global of the
  platform. Reading it throws a \<^verbatim>\<open>ReferenceError\<close>.
\<close>

definition branch :: "string option" where
  "branch = None"

definition docsLink :: string where
  "docsLink =
     ''https://docs.taskcluster.net/reference/integrations/github/docs/usage#who-can-trigger-jobs''"

definition permission_error_body :: "string \<Rightarrow> error \<Rightarrow> string" where
  "permission_error_body b e =
     join_str nl
       [''<details>'' @ nl,
        ''<summary>Error in `.taskcluster.yml` while checking'',
        ''for permissions **on default branch '' @ b @ ''**.'',
        ''Read more about this in'',
        ''[the taskcluster docs]('' @ docsLink @ '').'',
        ''Details:</summary>'' @ nl @ nl,
        ''```js'' @ nl,
        err_message e,
        ''```'' @ nl,
        ''</details>'']"

text \<open>The \<^verbatim>\<open>catch\<close> block of lines 395-418.\<close>

definition permission_catch ::
  "instGithub \<Rightarrow> string \<Rightarrow> string \<Rightarrow> nat option \<Rightarrow> error \<Rightarrow> world \<Rightarrow> unit result \<times> world"
where
  "permission_catch gh organization repository pullNumber e w =
     (if err_name e = ''YAMLException''
      then (case branch of
              None \<Rightarrow> (Inl (ReferenceError ''branch is not defined''), w)
            | Some b \<Rightarrow>
                post_comment (issues_createComment gh)
                  (IssueComment organization repository pullNumber (permission_error_body b e)) w)
      else (Inl e, w))"

definition permission ::
  "env \<Rightarrow> instGithub \<Rightarrow> job_message \<Rightarrow> string \<Rightarrow> string \<Rightarrow> string \<Rightarrow> nat option \<Rightarrow> graphConfig
     \<Rightarrow> date \<Rightarrow> world \<Rightarrow> unit result \<times> world"
where
  "permission h gh m organization repository sha pullNumber graph now w =
     (if startsWith (event_type (msg_details m)) ''pull_request.''
      then (let login = event_head_user_login (msg_details m)
            in case prAllowed h login organization repository gh m of
                 Inl e \<Rightarrow> permission_catch gh organization repository pullNumber e w
               | Inr allowed \<Rightarrow>
                   (if \<not> allowed
                    then (case issues_createComment gh
                                 (IssueComment organization repository pullNumber
                                    permission_denied_body) of
                            Some e \<Rightarrow> permission_catch gh organization repository pullNumber e w
                          | None \<Rightarrow>
                              (Inr (),
                               w\<lparr>comments := comments w
                                    @ [IssueComment organization repository pullNumber
                                         permission_denied_body]\<rparr>))
                    else submit h gh m organization repository sha graph now w))
      else submit h gh m organization repository sha graph now w)"

subsection \<open>Parsing and compiling the configuration (lines 333-369)\<close>

text \<open>
  Lines 351-369. \<open>intree\<close> is given the configuration and the payload; the validator and
  the two schema references are those of the Handlers object.
\<close>

definition compile ::
  "env \<Rightarrow> instGithub \<Rightarrow> job_message \<Rightarrow> string \<Rightarrow> string \<Rightarrow> string \<Rightarrow> nat option \<Rightarrow> string
     \<Rightarrow> date \<Rightarrow> world \<Rightarrow> unit result \<times> world"
where
  "compile h gh m organization repository sha pullNumber repoconf now w =
     (case intree h repoconf m of
        Inl e \<Rightarrow> createExceptionComment gh organization repository sha e pullNumber w
      | Inr graph \<Rightarrow>
          (if length (gc_tasks graph) = 0 then (Inr (), w)
           else permission h gh m organization repository sha pullNumber graph now w))"

text \<open>Lines 335-342.\<close>

definition parse ::
  "env \<Rightarrow> instGithub \<Rightarrow> job_message \<Rightarrow> string \<Rightarrow> string \<Rightarrow> string \<Rightarrow> nat option \<Rightarrow> string
     \<Rightarrow> date \<Rightarrow> world \<Rightarrow> unit result \<times> world"
where
  "parse h gh m organization repository sha pullNumber repoconf now w =
     (case yaml_safeLoad h repoconf of
        Some e \<Rightarrow>
          (if err_name e = ''YAMLException''
           then createExceptionComment gh organization repository sha e pullNumber w
           else (Inl e, w))
      | None \<Rightarrow> compile h gh m organization repository sha pullNumber repoconf now w)"

subsection \<open>Fetching the configuration (lines 276-331)\<close>

definition html_end :: string where
  "html_end = ''</body>'' @ nl @ ''</html>'' @ nl"

text \<open>Lines 321-329, on an error that is not the not-found signal.\<close>

definition truncate_error :: "error \<Rightarrow> error" where
  "truncate_error e =
     (if endsWith (err_message e) html_end \<and> length (err_message e) > 10000
      then e\<lparr>err_message := take 100 (err_message e) @ ''...'',
             err_stack := (case split (err_stack e) html_end of
                             _ # part # _ \<Rightarrow> if part \<noteq> [] then part else err_stack e
                           | _ \<Rightarrow> err_stack e)\<rparr>
      else e)"

text \<open>Lines 291-301.\<close>

definition resolve_sha :: "instGithub \<Rightarrow> job_message \<Rightarrow> string result" where
  "resolve_sha gh m =
     (case event_head_sha (msg_details m) of
        Some sha \<Rightarrow>
          (if sha \<noteq> [] then Inr sha
           else repos_getShaOfCommitRef gh (msg_organization m) (msg_repository m)
                  (''refs/tags/'' @ template (event_version (msg_details m))))
      | None \<Rightarrow>
          repos_getShaOfCommitRef gh (msg_organization m) (msg_repository m)
            (''refs/tags/'' @ template (event_version (msg_details m))))"

text \<open>Lines 287-288: the payload after the two assignments.\<close>

definition decoded :: "job_message \<Rightarrow> job_message" where
  "decoded m =
     m\<lparr>msg_organization := unsanitize (msg_organization m),
       msg_repository := unsanitize (msg_repository m)\<rparr>"

definition jobHandler :: "env \<Rightarrow> date \<Rightarrow> job_message \<Rightarrow> world \<Rightarrow> unit result \<times> world" where
  "jobHandler h now message w =
     (case getInstallationGithub h (msg_installationId message) of
        Inl e \<Rightarrow> (Inl e, w)
      | Inr gh \<Rightarrow>
          (let m = decoded message;
               organization = msg_organization m;
               repository = msg_repository m;
               pullNumber = event_pullNumber (msg_details m)
           in case resolve_sha gh m of
                Inl e \<Rightarrow> (Inl e, w)
              | Inr sha \<Rightarrow>
                  (case repos_getContent gh organization repository ''.taskcluster.yml'' sha of
                     Inl e \<Rightarrow>
                       (if err_code e = CodeNum 404 then (Inr (), w)
                        else (Inl (truncate_error e), w))
                   | Inr content \<Rightarrow>
                       parse h gh m organization repository sha pullNumber
                         (base64_toString h content) now w)))"

subsection \<open>The variable \<^verbatim>\<open>taskGroupId\<close>\<close>

text \<open>
  The handler once more, from the declaration of the variable \<^verbatim>\<open>taskGroupId\<close> on, with
  the values that the variable holds recorded in order: the value of its declaration
  (line 347), then what line 422 assigns. An invocation that returns before line 347
  records nothing. Line 422 assigns once, when \<^verbatim>\<open>graphConfig.tasks[0]\<close> is there, and
  throws before it assigns otherwise.
\<close>

definition assigned :: "graphConfig \<Rightarrow> string list" where
  "assigned graph =
     (case gc_tasks graph of [] \<Rightarrow> [] | t0 # _ \<Rightarrow> [def_taskGroupId (gt_task t0)])"

definition submit_run ::
  "env \<Rightarrow> instGithub \<Rightarrow> job_message \<Rightarrow> string \<Rightarrow> string \<Rightarrow> string \<Rightarrow> graphConfig \<Rightarrow> date \<Rightarrow> string
     \<Rightarrow> world \<Rightarrow> string list \<times> unit result \<times> world"
where
  "submit_run h gh m organization repository sha graph now taskGroupId0 w =
     (taskGroupId0 # assigned graph,
      case submit_try h graph taskGroupId0 w of
        (taskGroupId, None, w1) \<Rightarrow>
          (case bookkeeping h gh m organization repository sha graph
                  \<lparr>gs_status = ''queued'', gs_conclusion = None, gs_completed_at = None\<rparr>
                  taskGroupId now w1 of
             (Some e, w2) \<Rightarrow> (Inl e, w2)
           | (None, w2) \<Rightarrow> (Inr (), w2))
      | (taskGroupId, Some e, w1) \<Rightarrow>
          (case createExceptionComment gh organization repository sha e None w1 of
             (thrown, w2) \<Rightarrow>
               (case bookkeeping h gh m organization repository sha graph
                       \<lparr>gs_status = ''completed'', gs_conclusion = Some ''failure'',
                        gs_completed_at = Some (toISOString h now)\<rparr>
                       taskGroupId now w2 of
                  (Some e', w3) \<Rightarrow> (Inl e', w3)
                | (None, w3) \<Rightarrow> (thrown, w3))))"

definition permission_run ::
  "env \<Rightarrow> instGithub \<Rightarrow> job_message \<Rightarrow> string \<Rightarrow> string \<Rightarrow> string \<Rightarrow> nat option \<Rightarrow> graphConfig
     \<Rightarrow> date \<Rightarrow> string \<Rightarrow> world \<Rightarrow> string list \<times> unit result \<times> world"
where
  "permission_run h gh m organization repository sha pullNumber graph now taskGroupId0 w =
     (if startsWith (event_type (msg_details m)) ''pull_request.''
      then (let login = event_head_user_login (msg_details m)
            in case prAllowed h login organization repository gh m of
                 Inl e \<Rightarrow>
                   ([taskGroupId0], permission_catch gh organization repository pullNumber e w)
               | Inr allowed \<Rightarrow>
                   (if \<not> allowed
                    then ([taskGroupId0],
                          case issues_createComment gh
                                 (IssueComment organization repository pullNumber
                                    permission_denied_body) of
                            Some e \<Rightarrow> permission_catch gh organization repository pullNumber e w
                          | None \<Rightarrow>
                              (Inr (),
                               w\<lparr>comments := comments w
                                    @ [IssueComment organization repository pullNumber
                                         permission_denied_body]\<rparr>))
                    else submit_run h gh m organization repository sha graph now taskGroupId0 w))
      else submit_run h gh m organization repository sha graph now taskGroupId0 w)"

definition compile_run ::
  "env \<Rightarrow> instGithub \<Rightarrow> job_message \<Rightarrow> string \<Rightarrow> string \<Rightarrow> string \<Rightarrow> nat option \<Rightarrow> string
     \<Rightarrow> date \<Rightarrow> world \<Rightarrow> string list \<times> unit result \<times> world"
where
  "compile_run h gh m organization repository sha pullNumber repoconf now w =
     (let taskGroupId0 = ''nonexistent''
      in case intree h repoconf m of
           Inl e \<Rightarrow>
             ([taskGroupId0],
              createExceptionComment gh organization repository sha e pullNumber w)
         | Inr graph \<Rightarrow>
             (if length (gc_tasks graph) = 0 then ([taskGroupId0], Inr (), w)
              else permission_run h gh m organization repository sha pullNumber graph now
                     taskGroupId0 w))"

definition parse_run ::
  "env \<Rightarrow> instGithub \<Rightarrow> job_message \<Rightarrow> string \<Rightarrow> string \<Rightarrow> string \<Rightarrow> nat option \<Rightarrow> string
     \<Rightarrow> date \<Rightarrow> world \<Rightarrow> string list \<times> unit result \<times> world"
where
  "parse_run h gh m organization repository sha pullNumber repoconf now w =
     (case yaml_safeLoad h repoconf of
        Some e \<Rightarrow>
          ([],
           if err_name e = ''YAMLException''
           then createExceptionComment gh organization repository sha e pullNumber w
           else (Inl e, w))
      | None \<Rightarrow> compile_run h gh m organization repository sha pullNumber repoconf now w)"

definition jobHandler_run ::
  "env \<Rightarrow> date \<Rightarrow> job_message \<Rightarrow> world \<Rightarrow> string list \<times> unit result \<times> world"
where
  "jobHandler_run h now message w =
     (case getInstallationGithub h (msg_installationId message) of
        Inl e \<Rightarrow> ([], Inl e, w)
      | Inr gh \<Rightarrow>
          (let m = decoded message;
               organization = msg_organization m;
               repository = msg_repository m;
               pullNumber = event_pullNumber (msg_details m)
           in case resolve_sha gh m of
                Inl e \<Rightarrow> ([], Inl e, w)
              | Inr sha \<Rightarrow>
                  (case repos_getContent gh organization repository ''.taskcluster.yml'' sha of
                     Inl e \<Rightarrow>
                       (if err_code e = CodeNum 404 then ([], Inr (), w)
                        else ([], Inl (truncate_error e), w))
                   | Inr content \<Rightarrow>
                       parse_run h gh m organization repository sha pullNumber
                         (base64_toString h content) now w)))"

section \<open>Concrete scenarios\<close>

text \<open>
  The collaborators of the scenarios of section 8 of the specification: a host that accepts
  every call, a compiler that answers a graph of two tasks in the task group \<open>tg\<close>, a queue
  that accepts every task and lists the group on two pages.
\<close>

definition scenario_github :: instGithub where
  "scenario_github =
     \<lparr>repos_getShaOfCommitRef = (\<lambda>owner repo ref. Inr ''cafe01''),
      repos_getContent = (\<lambda>owner repo path ref. Inr ''dmVyc2lvbjogMQ==''),
      issues_createComment = (\<lambda>c. None),
      repos_createCommitComment = (\<lambda>c. None),
      checks_create = (\<lambda>req. Inr (5, 7)),
      checks_update = (\<lambda>req. None)\<rparr>"

definition scenario_graph :: graphConfig where
  "scenario_graph =
     \<lparr>gc_scopes = [''assume:repo:github.com/org/repo:branch:master''],
      gc_tasks = [\<lparr>gt_taskId = ''t1'', gt_task = \<lparr>def_taskGroupId = ''tg''\<rparr>\<rparr>,
                  \<lparr>gt_taskId = ''t2'', gt_task = \<lparr>def_taskGroupId = ''tg''\<rparr>\<rparr>]\<rparr>"

definition scenario_pages :: "string option \<Rightarrow> group_page result" where
  "scenario_pages tok =
     (case tok of
        None \<Rightarrow> Inr \<lparr>page_tasks = [''completed''], continuationToken = Some ''page2''\<rparr>
      | Some _ \<Rightarrow> Inr \<lparr>page_tasks = [''failed''], continuationToken = None\<rparr>)"

definition scenario_env :: env where
  "scenario_env =
     \<lparr>intree = (\<lambda>config m. Inr scenario_graph),
      statusContext = ''Taskcluster'',
      getInstallationGithub = (\<lambda>installation. Inr scenario_github),
      queue_createTask = (\<lambda>scps tid def. None),
      queue_listTaskGroup = (\<lambda>tg. scenario_pages),
      Builds_create_fault = (\<lambda>b. None),
      CheckRuns_create_fault = (\<lambda>c. None),
      yaml_safeLoad = (\<lambda>text. None),
      base64_toString = (\<lambda>text. ''version: 1''),
      prAllowed = (\<lambda>login organization repository gh m. Inr True),
      toISOString = (\<lambda>d. ''2018-10-01T00:00:00.000Z'')\<rparr>"

definition scenario_push :: job_message where
  "scenario_push =
     \<lparr>msg_installationId = 1,
      msg_organization = ''org'',
      msg_repository = ''my%repo'',
      msg_eventId = ''e1'',
      msg_details = \<lparr>event_head_sha = Some ''cafe01'', event_pullNumber = None,
                     event_type = ''push'', event_version = None,
                     event_head_user_login = None\<rparr>\<rparr>"

definition scenario_pull_request :: job_message where
  "scenario_pull_request =
     \<lparr>msg_installationId = 1,
      msg_organization = ''org'',
      msg_repository = ''my%repo'',
      msg_eventId = ''e2'',
      msg_details = \<lparr>event_head_sha = Some ''cafe02'', event_pullNumber = Some 12,
                     event_type = ''pull_request.opened'', event_version = None,
                     event_head_user_login = Some ''mallory''\<rparr>\<rparr>"

definition empty_world :: world where
  "empty_world =
     \<lparr>Builds = Map.empty, CheckRuns = Map.empty, comments = [], check_runs = [],
      check_updates = [], queue_tasks = []\<rparr>"

definition scenario_build :: "string \<Rightarrow> build" where
  "scenario_build state =
     \<lparr>build_organization = ''org'',
      build_repository = ''my.repo'',
      build_sha = ''cafe01'',
      build_taskGroupId = ''tg'',
      build_state = state,
      build_created = 200,
      build_updated = 200,
      build_installationId = 1,
      build_eventType = ''push'',
      build_eventId = ''e1''\<rparr>"

definition scenario_check :: check_record where
  "scenario_check =
     \<lparr>check_taskGroupId = ''tg'', check_taskId = ''t1'', check_checkSuiteId = ''5'',
      check_checkRunId = ''7''\<rparr>"

text \<open>A world in which the job handler has run: one Build record and one Check record.\<close>

definition scenario_world :: "string \<Rightarrow> world" where
  "scenario_world state =
     empty_world\<lparr>Builds := [''tg'' \<mapsto> scenario_build state],
                  CheckRuns := [(''tg'', ''t1'') \<mapsto> scenario_check]\<rparr>"

text \<open>The world after the push of the scenario has been handled once, at time 200.\<close>

definition scenario_queued :: group_state where
  "scenario_queued = \<lparr>gs_status = ''queued'', gs_conclusion = None, gs_completed_at = None\<rparr>"

definition scenario_delivered :: world where
  "scenario_delivered =
     \<lparr>Builds = [''tg'' \<mapsto> scenario_build ''queued''],
      CheckRuns = [(''tg'', ''t1'') \<mapsto> scenario_check,
                   (''tg'', ''t2'') \<mapsto> scenario_check\<lparr>check_taskId := ''t2''\<rparr>],
      comments = [],
      check_runs =
        [check_run_request scenario_env ''org'' ''my.repo'' ''cafe01'' ''push'' scenario_queued
           ''tg'' 0 \<lparr>gt_taskId = ''t1'', gt_task = \<lparr>def_taskGroupId = ''tg''\<rparr>\<rparr>,
         check_run_request scenario_env ''org'' ''my.repo'' ''cafe01'' ''push'' scenario_queued
           ''tg'' 1 \<lparr>gt_taskId = ''t2'', gt_task = \<lparr>def_taskGroupId = ''tg''\<rparr>\<rparr>],
      check_updates = [],
      queue_tasks = [(gc_scopes scenario_graph, ''t1'', \<lparr>def_taskGroupId = ''tg''\<rparr>),
                     (gc_scopes scenario_graph, ''t2'', \<lparr>def_taskGroupId = ''tg''\<rparr>)]\<rparr>"

definition http_error :: "int \<Rightarrow> string \<Rightarrow> error" where
  "http_error status m =
     \<lparr>err_name = ''HttpError'', err_code = CodeNum status, err_message = m, err_stack = [],
      err_body = None\<rparr>"

definition yaml_error :: error where
  "yaml_error =
     \<lparr>err_name = ''YAMLException'', err_code = NoCode,
      err_message = ''bad indentation of a mapping entry at line 3, column 5'',
      err_stack = [], err_body = None\<rparr>"

text \<open>The scenario with another host client.\<close>

definition scenario_env_on :: "instGithub \<Rightarrow> env" where
  "scenario_env_on gh = scenario_env\<lparr>getInstallationGithub := (\<lambda>installation. Inr gh)\<rparr>"

text \<open>The scenario with a queue that refuses the second task.\<close>

definition scenario_env_refusing :: env where
  "scenario_env_refusing =
     scenario_env\<lparr>queue_createTask :=
       (\<lambda>scps tid def. if tid = ''t2'' then Some (http_error 500 ''Server Error'') else None)\<rparr>"

definition scenario_failure :: group_state where
  "scenario_failure =
     \<lparr>gs_status = ''completed'', gs_conclusion = Some ''failure'',
      gs_completed_at = Some ''2018-10-01T00:00:00.000Z''\<rparr>"

text \<open>The scenario with a compiler that puts the two tasks in two task groups.\<close>

definition scenario_mixed_graph :: graphConfig where
  "scenario_mixed_graph =
     \<lparr>gc_scopes = [''assume:repo:github.com/org/repo:branch:master''],
      gc_tasks = [\<lparr>gt_taskId = ''t1'', gt_task = \<lparr>def_taskGroupId = ''tgA''\<rparr>\<rparr>,
                  \<lparr>gt_taskId = ''t2'', gt_task = \<lparr>def_taskGroupId = ''tgB''\<rparr>\<rparr>]\<rparr>"

definition scenario_env_mixed :: env where
  "scenario_env_mixed = scenario_env\<lparr>intree := (\<lambda>config m. Inr scenario_mixed_graph)\<rparr>"

text \<open>The world after the push has been handled with that compiler, at time 200.\<close>

definition scenario_mixed_delivered :: world where
  "scenario_mixed_delivered =
     \<lparr>Builds = [''tgA'' \<mapsto> (scenario_build ''queued'')\<lparr>build_taskGroupId := ''tgA''\<rparr>],
      CheckRuns = [(''tgA'', ''t1'') \<mapsto> scenario_check\<lparr>check_taskGroupId := ''tgA''\<rparr>,
                   (''tgA'', ''t2'') \<mapsto>
                     scenario_check\<lparr>check_taskGroupId := ''tgA'', check_taskId := ''t2''\<rparr>],
      comments = [],
      check_runs =
        [check_run_request scenario_env ''org'' ''my.repo'' ''cafe01'' ''push'' scenario_queued
           ''tgA'' 0 \<lparr>gt_taskId = ''t1'', gt_task = \<lparr>def_taskGroupId = ''tgA''\<rparr>\<rparr>,
         check_run_request scenario_env ''org'' ''my.repo'' ''cafe01'' ''push'' scenario_queued
           ''tgA'' 1 \<lparr>gt_taskId = ''t2'', gt_task = \<lparr>def_taskGroupId = ''tgB''\<rparr>\<rparr>],
      check_updates = [],
      queue_tasks = [(gc_scopes scenario_mixed_graph, ''t1'', \<lparr>def_taskGroupId = ''tgA''\<rparr>),
                     (gc_scopes scenario_mixed_graph, ''t2'', \<lparr>def_taskGroupId = ''tgB''\<rparr>)]\<rparr>"

section \<open>Properties of groupStatusHandler\<close>

lemma foldl_forEach_task:
  "foldl forEach_task groupState sts =
     (if list_ex (\<lambda>st. st = ''failed'' \<or> st = ''exception'') sts then ''failure''
      else groupState)"
  by (induction sts arbitrary: groupState) (auto simp: forEach_task_def)

lemma member_failed_Cons:
  "member_failed (p # ps) \<longleftrightarrow>
     list_ex (\<lambda>st. st = ''failed'' \<or> st = ''exception'') (page_tasks p) \<or> member_failed ps"
  by (simp add: member_failed_def)

text \<open>
  When the listing is exhausted within the fuel, the loop ends and has seen a failed or
  exception task exactly when a page of the listing holds one.
\<close>

lemma listTaskGroup_loop_listing:
  "listing n q tok = Some pages \<Longrightarrow>
   listTaskGroup_loop n q tok groupState =
     Some (Inr (if member_failed pages then ''failure'' else groupState))"
proof (induction n arbitrary: tok groupState pages)
  case 0
  then show ?case by simp
next
  case (Suc n)
  then obtain g where g: "q tok = Inr g"
    by (cases "q tok") auto
  show ?case
  proof (cases "truthy (continuationToken g)")
    case True
    with Suc.prems g obtain rest where rest: "listing n q (continuationToken g) = Some rest"
      and pages: "pages = g # rest"
      by auto
    from Suc.IH [OF rest] show ?thesis
      using g True pages by (simp add: Let_def foldl_forEach_task member_failed_Cons)
  next
    case False
    with Suc.prems g have "pages = [g]" by simp
    then show ?thesis
      using g False by (simp add: Let_def foldl_forEach_task member_failed_def)
  qed
qed

lemma Builds_modify_sticky:
  "Builds w k = Some b \<Longrightarrow> build_state b = ''failure'' \<Longrightarrow>
   Builds_modify k (groupStatus_modifier groupState now) w = w"
  by (simp add: Builds_modify_def groupStatus_modifier_def map_upd_triv)

lemma Builds_modify_set:
  "Builds w k = Some b \<Longrightarrow> build_state b \<noteq> ''failure'' \<Longrightarrow>
   Builds_modify k (groupStatus_modifier groupState now) w =
     w\<lparr>Builds := (Builds w)(k \<mapsto> b\<lparr>build_state := groupState, build_updated := now\<rparr>)\<rparr>"
  by (simp add: Builds_modify_def groupStatus_modifier_def)

lemma scenario_listing:
  "listing 2 (queue_listTaskGroup scenario_env ''tg'') None =
     Some [\<lparr>page_tasks = [''completed''], continuationToken = Some ''page2''\<rparr>,
           \<lparr>page_tasks = [''failed''], continuationToken = None\<rparr>]"
  by (simp add: scenario_env_def scenario_pages_def truthy_def numeral_2_eq_2)

text \<open>
  Claim C1 (sticky failure). Let the Build record of the task group be \<open>b\<close>. If its state
  is \<open>failure\<close>, every invocation of the group status handler that returns, with a result
  or with an error, leaves the whole world as it was, so the record is still \<open>b\<close> with
  state \<open>failure\<close> and its timestamps; and the handler does return, without error, when the
  listing is exhausted within the fuel, whatever the aggregate of the listing is. If its
  state is not \<open>failure\<close>, the handler sets the state to the aggregate of the listing and
  the updated timestamp to the current time.
\<close>

theorem groupStatusHandler_sticky_failure:
  assumes "Builds w taskGroupId = Some b"
  shows "(build_state b = ''failure'' \<longrightarrow>
            (\<forall>r w'. groupStatusHandler fuel h now taskGroupId w = Some (r, w') \<longrightarrow>
               w' = w \<and> Builds w' taskGroupId = Some b))
       \<and> (build_state b = ''failure'' \<longrightarrow>
            (\<forall>pages. listing fuel (queue_listTaskGroup h taskGroupId) None = Some pages \<longrightarrow>
               groupStatusHandler fuel h now taskGroupId w = Some (Inr (), w)))
       \<and> (build_state b \<noteq> ''failure'' \<longrightarrow>
            (\<forall>pages. listing fuel (queue_listTaskGroup h taskGroupId) None = Some pages \<longrightarrow>
               groupStatusHandler fuel h now taskGroupId w =
                 Some (Inr (),
                       w\<lparr>Builds := (Builds w)(taskGroupId \<mapsto>
                            b\<lparr>build_state := (if member_failed pages then ''failure''
                                               else ''success''),
                              build_updated := now\<rparr>)\<rparr>)))"
  using assms
  by (auto simp: groupStatusHandler_def Builds_load_def Builds_modify_sticky Builds_modify_set
        listTaskGroup_loop_listing
      split: option.splits sum.splits)

theorem groupStatusHandler_sticky_failure_witness:
  "groupStatusHandler 2 scenario_env 500 ''tg'' (scenario_world ''failure'')
     = Some (Inr (), scenario_world ''failure'')
   \<and> Builds (scenario_world ''failure'') ''tg'' = Some (scenario_build ''failure'')
   \<and> groupStatusHandler 2 scenario_env 500 ''tg'' (scenario_world ''queued'')
     = Some (Inr (), (scenario_world ''queued'')
          \<lparr>Builds := (Builds (scenario_world ''queued''))(''tg'' \<mapsto>
             (scenario_build ''queued'')\<lparr>build_state := ''failure'', build_updated := 500\<rparr>)\<rparr>)"
proof -
  have f: "Builds (scenario_world ''failure'') ''tg'' = Some (scenario_build ''failure'')"
    and q: "Builds (scenario_world ''queued'') ''tg'' = Some (scenario_build ''queued'')"
    by (simp_all add: scenario_world_def)
  have sf: "build_state (scenario_build ''failure'') = ''failure''"
    and sq: "build_state (scenario_build ''queued'') \<noteq> ''failure''"
    by (simp_all add: scenario_build_def)
  have m: "member_failed [\<lparr>page_tasks = [''completed''], continuationToken = Some ''page2''\<rparr>,
                          \<lparr>page_tasks = [''failed''], continuationToken = None\<rparr>]"
    by (simp add: member_failed_def)
  show ?thesis
    using groupStatusHandler_sticky_failure [OF f, of 2 scenario_env 500]
      groupStatusHandler_sticky_failure [OF q, of 2 scenario_env 500]
      scenario_listing f sf sq m
    by simp
qed

text \<open>
  Claim C4. For a task-group-resolved message whose Build record exists, when the listing
  of the group is exhausted after at most \<open>fuel\<close> requests (each request carrying the
  continuation token of the page before, the first one none), the handler returns, and
  the aggregate it gives to the record's modifier is \<open>failure\<close> if and only if a member
  task on one of the pages has state \<open>failed\<close> or \<open>exception\<close>, and \<open>success\<close> otherwise.
\<close>

theorem groupStatusHandler_aggregate:
  assumes "Builds w taskGroupId = Some b"
    and "listing fuel (queue_listTaskGroup h taskGroupId) None = Some pages"
  shows "listTaskGroup_loop fuel (queue_listTaskGroup h taskGroupId) None ''success'' =
           Some (Inr (if \<exists>p \<in> set pages. \<exists>st \<in> set (page_tasks p).
                            st = ''failed'' \<or> st = ''exception''
                      then ''failure'' else ''success''))
       \<and> groupStatusHandler fuel h now taskGroupId w =
           Some (Inr (), Builds_modify taskGroupId
              (groupStatus_modifier
                 (if \<exists>p \<in> set pages. \<exists>st \<in> set (page_tasks p).
                        st = ''failed'' \<or> st = ''exception''
                  then ''failure'' else ''success'') now) w)"
  using assms
  by (simp add: groupStatusHandler_def Builds_load_def listTaskGroup_loop_listing
      member_failed_def list_ex_iff)

theorem groupStatusHandler_aggregate_witness:
  "listTaskGroup_loop 2 (queue_listTaskGroup scenario_env ''tg'') None ''success''
     = Some (Inr ''failure'')
   \<and> groupStatusHandler 2 scenario_env 500 ''tg'' (scenario_world ''queued'')
     = Some (Inr (), Builds_modify ''tg'' (groupStatus_modifier ''failure'' 500)
                       (scenario_world ''queued''))"
proof -
  have q: "Builds (scenario_world ''queued'') ''tg'' = Some (scenario_build ''queued'')"
    by (simp add: scenario_world_def)
  show ?thesis
    using groupStatusHandler_aggregate [OF q scenario_listing, of 500]
    by simp
qed

section \<open>Properties of statusHandler\<close>

text \<open>
  Claim C9. For a message whose state is \<open>completed\<close>, \<open>failed\<close> or \<open>exception\<close>, and whose
  Build and Check records exist: a failure of the authentication is the handler's result,
  a failure of the update is the handler's result, and otherwise exactly one update is
  sent, for the check-run whose identifier the Check record stores, with status
  \<open>completed\<close>, the conclusion of the table (\<open>completed\<close> gives \<open>success\<close>, \<open>failed\<close> and
  \<open>exception\<close> give \<open>failure\<close>) and the current time as completion time.
\<close>

theorem statusHandler_updates_check_run:
  assumes "Builds w (sm_taskGroupId m) = Some b"
    and "CheckRuns w (sm_taskGroupId m, sm_taskId m) = Some c"
    and "sm_state m = ''completed'' \<or> sm_state m = ''failed'' \<or> sm_state m = ''exception''"
  shows "statusHandler h now m w =
           (case getInstallationGithub h (build_installationId b) of
              Inl e \<Rightarrow> (Inl e, w)
            | Inr gh \<Rightarrow>
                (case checks_update gh
                        \<lparr>cu_owner = build_organization b,
                         cu_repo = build_repository b,
                         cu_check_run_id = check_checkRunId c,
                         cu_status = ''completed'',
                         cu_conclusion = Some (if sm_state m = ''completed'' then ''success''
                                               else ''failure''),
                         cu_completed_at = toISOString h now\<rparr> of
                   Some e \<Rightarrow> (Inl e, w)
                 | None \<Rightarrow>
                     (Inr (),
                      w\<lparr>check_updates := check_updates w @
                           [\<lparr>cu_owner = build_organization b,
                             cu_repo = build_repository b,
                             cu_check_run_id = check_checkRunId c,
                             cu_status = ''completed'',
                             cu_conclusion = Some (if sm_state m = ''completed'' then ''success''
                                                   else ''failure''),
                             cu_completed_at = toISOString h now\<rparr>]\<rparr>)))"
  using assms
  by (auto simp: statusHandler_def Builds_load_def CheckRuns_load_def CONCLUSIONS_def Let_def
      split: sum.splits option.splits)

theorem statusHandler_updates_check_run_witness:
  "statusHandler scenario_env 500
     \<lparr>sm_taskGroupId = ''tg'', sm_taskId = ''t1'', sm_state = ''failed''\<rparr>
     (scenario_world ''queued'')
   = (Inr (),
      (scenario_world ''queued'')
        \<lparr>check_updates :=
           [\<lparr>cu_owner = ''org'', cu_repo = ''my.repo'', cu_check_run_id = ''7'',
             cu_status = ''completed'', cu_conclusion = Some ''failure'',
             cu_completed_at = ''2018-10-01T00:00:00.000Z''\<rparr>]\<rparr>)
   \<and> statusHandler
       (scenario_env\<lparr>getInstallationGithub :=
          (\<lambda>installation. Inl (http_error 401 ''Bad credentials''))\<rparr>) 500
       \<lparr>sm_taskGroupId = ''tg'', sm_taskId = ''t1'', sm_state = ''completed''\<rparr>
       (scenario_world ''queued'')
     = (Inl (http_error 401 ''Bad credentials''), scenario_world ''queued'')
   \<and> statusHandler
       (scenario_env_on
          (scenario_github\<lparr>checks_update := (\<lambda>req. Some (http_error 500 ''Server Error''))\<rparr>))
       500 \<lparr>sm_taskGroupId = ''tg'', sm_taskId = ''t1'', sm_state = ''exception''\<rparr>
       (scenario_world ''queued'')
     = (Inl (http_error 500 ''Server Error''), scenario_world ''queued'')"
proof -
  have b: "\<And>st. Builds (scenario_world ''queued'')
             (sm_taskGroupId \<lparr>sm_taskGroupId = ''tg'', sm_taskId = ''t1'', sm_state = st\<rparr>)
           = Some (scenario_build ''queued'')"
    by (simp add: scenario_world_def)
  have c: "\<And>st. CheckRuns (scenario_world ''queued'')
             (sm_taskGroupId \<lparr>sm_taskGroupId = ''tg'', sm_taskId = ''t1'', sm_state = st\<rparr>,
              sm_taskId \<lparr>sm_taskGroupId = ''tg'', sm_taskId = ''t1'', sm_state = st\<rparr>)
           = Some scenario_check"
    by (simp add: scenario_world_def)
  show ?thesis
    using statusHandler_updates_check_run [OF b c, of "''failed''" scenario_env 500]
      statusHandler_updates_check_run [OF b c, of "''completed''"
        "scenario_env\<lparr>getInstallationGithub :=
           (\<lambda>installation. Inl (http_error 401 ''Bad credentials''))\<rparr>" 500]
      statusHandler_updates_check_run [OF b c, of "''exception''"
        "scenario_env_on
           (scenario_github\<lparr>checks_update := (\<lambda>req. Some (http_error 500 ''Server Error''))\<rparr>)"
        500]
    by (simp add: scenario_env_on_def scenario_env_def scenario_github_def scenario_build_def
        scenario_check_def scenario_world_def empty_world_def)
qed

section \<open>Properties of jobHandler: the steps before submission\<close>

text \<open>What the handler does once it is authenticated and knows the commit.\<close>

lemma jobHandler_fetch:
  assumes "getInstallationGithub h (msg_installationId message) = Inr gh"
    and "resolve_sha gh (decoded message) = Inr sha"
  shows "jobHandler h now message w =
           (case repos_getContent gh (msg_organization (decoded message))
                   (msg_repository (decoded message)) ''.taskcluster.yml'' sha of
              Inl e \<Rightarrow>
                (if err_code e = CodeNum 404 then (Inr (), w) else (Inl (truncate_error e), w))
            | Inr content \<Rightarrow>
                parse h gh (decoded message) (msg_organization (decoded message))
                  (msg_repository (decoded message)) sha
                  (event_pullNumber (msg_details (decoded message)))
                  (base64_toString h content) now w)"
  using assms by (simp add: jobHandler_def Let_def)

lemma truncate_error_fields:
  "err_name (truncate_error e) = err_name e"
  "err_code (truncate_error e) = err_code e"
  "err_body (truncate_error e) = err_body e"
  by (simp_all add: truncate_error_def)

lemma truncate_error_short:
  "length (err_message e) \<le> 10000 \<Longrightarrow> truncate_error e = e"
  by (simp add: truncate_error_def)

lemma exception_comment_body_contains:
  "exception_comment_body e =
     (''<details>'' @ nl @ nl
        @ ''<summary>Submitting the task to Taskcluster failed. Details</summary>'' @ nl @ nl)
     @ errorBody e @ (nl @ nl @ ''</details>'')"
  by (simp add: exception_comment_body_def)

text \<open>
  Claim C5. When the fetch of the configuration raises the not-found signal (code 404),
  the handler returns without error and the world is as it was: no comment, no task, no
  record. When the fetch raises anything else, the handler fails with that error and the
  world is as it was; the error keeps its name, code and body, and it is the very same
  error unless its message is longer than 10000 characters (lines 321-329 then shorten
  the message and the stack).
\<close>

theorem jobHandler_no_config:
  assumes "getInstallationGithub h (msg_installationId message) = Inr gh"
    and "resolve_sha gh (decoded message) = Inr sha"
    and "repos_getContent gh (msg_organization (decoded message))
           (msg_repository (decoded message)) ''.taskcluster.yml'' sha = Inl e"
  shows "(err_code e = CodeNum 404 \<longrightarrow> jobHandler h now message w = (Inr (), w))
       \<and> (err_code e \<noteq> CodeNum 404 \<longrightarrow>
            jobHandler h now message w = (Inl (truncate_error e), w)
            \<and> err_name (truncate_error e) = err_name e
            \<and> err_code (truncate_error e) = err_code e
            \<and> err_body (truncate_error e) = err_body e
            \<and> (length (err_message e) \<le> 10000 \<longrightarrow> truncate_error e = e))"
  using jobHandler_fetch [OF assms(1,2), of now w] assms(3)
  by (simp add: truncate_error_fields truncate_error_short)

theorem jobHandler_no_config_witness:
  "jobHandler
     (scenario_env_on (scenario_github
        \<lparr>repos_getContent := (\<lambda>owner repo path ref. Inl (http_error 404 ''Not Found''))\<rparr>))
     200 scenario_push empty_world = (Inr (), empty_world)
   \<and> jobHandler
     (scenario_env_on (scenario_github
        \<lparr>repos_getContent := (\<lambda>owner repo path ref. Inl (http_error 500 ''Server Error''))\<rparr>))
     200 scenario_push empty_world = (Inl (http_error 500 ''Server Error''), empty_world)"
  using
    jobHandler_no_config [of
      "scenario_env_on (scenario_github
         \<lparr>repos_getContent := (\<lambda>owner repo path ref. Inl (http_error 404 ''Not Found''))\<rparr>)"
      scenario_push
      "scenario_github
         \<lparr>repos_getContent := (\<lambda>owner repo path ref. Inl (http_error 404 ''Not Found''))\<rparr>"
      "''cafe01''" "http_error 404 ''Not Found''" 200 empty_world]
    jobHandler_no_config [of
      "scenario_env_on (scenario_github
         \<lparr>repos_getContent := (\<lambda>owner repo path ref. Inl (http_error 500 ''Server Error''))\<rparr>)"
      scenario_push
      "scenario_github
         \<lparr>repos_getContent := (\<lambda>owner repo path ref. Inl (http_error 500 ''Server Error''))\<rparr>"
      "''cafe01''" "http_error 500 ''Server Error''" 200 empty_world]
  by (simp add: scenario_env_on_def scenario_env_def scenario_push_def decoded_def
      resolve_sha_def http_error_def)

lemma jobHandler_parse:
  assumes "m = decoded message"
    and "getInstallationGithub h (msg_installationId message) = Inr gh"
    and "resolve_sha gh m = Inr sha"
    and "repos_getContent gh (msg_organization m) (msg_repository m) ''.taskcluster.yml'' sha
           = Inr content"
  shows "jobHandler h now message w =
           parse h gh m (msg_organization m) (msg_repository m) sha
             (event_pullNumber (msg_details m)) (base64_toString h content) now w"
  using assms by (simp add: jobHandler_def Let_def)

lemma jobHandler_permission:
  assumes "m = decoded message"
    and "getInstallationGithub h (msg_installationId message) = Inr gh"
    and "resolve_sha gh m = Inr sha"
    and "repos_getContent gh (msg_organization m) (msg_repository m) ''.taskcluster.yml'' sha
           = Inr content"
    and "yaml_safeLoad h (base64_toString h content) = None"
    and "intree h (base64_toString h content) m = Inr graph"
    and "gc_tasks graph \<noteq> []"
  shows "jobHandler h now message w =
           permission h gh m (msg_organization m) (msg_repository m) sha
             (event_pullNumber (msg_details m)) graph now w"
  using assms by (simp add: jobHandler_def Let_def parse_def compile_def)

lemma jobHandler_submit:
  assumes "m = decoded message"
    and "getInstallationGithub h (msg_installationId message) = Inr gh"
    and "resolve_sha gh m = Inr sha"
    and "repos_getContent gh (msg_organization m) (msg_repository m) ''.taskcluster.yml'' sha
           = Inr content"
    and "yaml_safeLoad h (base64_toString h content) = None"
    and "intree h (base64_toString h content) m = Inr graph"
    and "gc_tasks graph \<noteq> []"
    and "startsWith (event_type (msg_details m)) ''pull_request.'' \<longrightarrow>
           prAllowed h (event_head_user_login (msg_details m)) (msg_organization m)
             (msg_repository m) gh m = Inr True"
  shows "jobHandler h now message w =
           submit h gh m (msg_organization m) (msg_repository m) sha graph now w"
  using jobHandler_permission [OF assms(1-7), of now w] assms(8)
  by (simp add: permission_def Let_def)

text \<open>
  Claim C6. When the fetched text fails to parse with a \<open>YAMLException\<close>, the handler is
  exactly one call that posts a comment: on the pull request when the message carries a
  pull-request number, on the commit otherwise. When the host accepts the call, the
  handler returns without error and the world differs from the one before by that one
  comment only: no task, no Build record, no Check record. The body of the comment
  contains the text of the parse error (its message, for an error with no body).
\<close>

theorem jobHandler_yaml_error:
  assumes "m = decoded message"
    and "getInstallationGithub h (msg_installationId message) = Inr gh"
    and "resolve_sha gh m = Inr sha"
    and "repos_getContent gh (msg_organization m) (msg_repository m) ''.taskcluster.yml'' sha
           = Inr content"
    and "yaml_safeLoad h (base64_toString h content) = Some e"
    and "err_name e = ''YAMLException''"
    and "c = (if truthy_num (event_pullNumber (msg_details m))
              then IssueComment (msg_organization m) (msg_repository m)
                     (event_pullNumber (msg_details m)) (exception_comment_body e)
              else CommitComment (msg_organization m) (msg_repository m) sha
                     (exception_comment_body e))"
    and "posted = (if truthy_num (event_pullNumber (msg_details m))
                   then issues_createComment gh c else repos_createCommitComment gh c)"
  shows "jobHandler h now message w =
           (case posted of
              Some e' \<Rightarrow> (Inl e', w)
            | None \<Rightarrow> (Inr (), w\<lparr>comments := comments w @ [c]\<rparr>))
       \<and> (\<exists>before after. exception_comment_body e = before @ errorBody e @ after)
       \<and> (err_body e = None \<longrightarrow> errorBody e = err_message e)"
proof -
  have "jobHandler h now message w =
          createExceptionComment gh (msg_organization m) (msg_repository m) sha e
            (event_pullNumber (msg_details m)) w"
    using jobHandler_parse [OF assms(1-4), of now w] assms(5,6) by (simp add: parse_def)
  then have "jobHandler h now message w =
           (case posted of
              Some e' \<Rightarrow> (Inl e', w)
            | None \<Rightarrow> (Inr (), w\<lparr>comments := comments w @ [c]\<rparr>))"
    using assms(7,8)
    by (auto simp: createExceptionComment_def post_comment_def Let_def split: option.splits)
  moreover have "\<exists>before after. exception_comment_body e = before @ errorBody e @ after"
    using exception_comment_body_contains by blast
  moreover have "err_body e = None \<longrightarrow> errorBody e = err_message e"
    by (simp add: errorBody_def)
  ultimately show ?thesis by simp
qed

theorem jobHandler_yaml_error_witness:
  "jobHandler (scenario_env\<lparr>yaml_safeLoad := (\<lambda>text. Some yaml_error)\<rparr>) 200
     scenario_pull_request empty_world
   = (Inr (),
      empty_world\<lparr>comments :=
        [IssueComment ''org'' ''my.repo'' (Some 12) (exception_comment_body yaml_error)]\<rparr>)
   \<and> jobHandler (scenario_env\<lparr>yaml_safeLoad := (\<lambda>text. Some yaml_error)\<rparr>) 200
     scenario_push empty_world
   = (Inr (),
      empty_world\<lparr>comments :=
        [CommitComment ''org'' ''my.repo'' ''cafe01'' (exception_comment_body yaml_error)]\<rparr>)"
  using
    jobHandler_yaml_error [of "decoded scenario_pull_request" scenario_pull_request
      "scenario_env\<lparr>yaml_safeLoad := (\<lambda>text. Some yaml_error)\<rparr>" scenario_github "''cafe02''"
      "''dmVyc2lvbjogMQ==''" yaml_error
      "IssueComment ''org'' ''my.repo'' (Some 12) (exception_comment_body yaml_error)"
      None 200 empty_world]
    jobHandler_yaml_error [of "decoded scenario_push" scenario_push
      "scenario_env\<lparr>yaml_safeLoad := (\<lambda>text. Some yaml_error)\<rparr>" scenario_github "''cafe01''"
      "''dmVyc2lvbjogMQ==''" yaml_error
      "CommitComment ''org'' ''my.repo'' ''cafe01'' (exception_comment_body yaml_error)"
      None 200 empty_world]
  by (simp add: scenario_env_def scenario_github_def scenario_push_def scenario_pull_request_def
      decoded_def resolve_sha_def unsanitize_def truthy_num_def yaml_error_def empty_world_def)

lemma permission_denied_body_contains:
  "permission_denied_body =
     (''<details>'' @ nl @ nl
        @ ''<summary>No Taskcluster jobs started for this pull request</summary>'' @ nl @ nl @ nl
        @ ''```js'' @ nl @ nl @ ''The `'')
     @ ''allowPullRequests''
     @ (''` configuration for this repository (in `.taskcluster.yml` on the'' @ nl
        @ ''default branch) does not allow starting tasks for this pull request.'' @ nl
        @ ''```'' @ nl @ nl @ ''</details>'')"
  by (simp add: permission_denied_body_def)

text \<open>
  Claim C7. For a pull-request event that reaches the permission check (the configuration
  was fetched, parsed and compiled to at least one task), when the permission check
  answers that the actor is not allowed and the host accepts the comment, the handler
  returns without error and the world differs from the one before by one comment on the
  pull request only: no task, no Build record, no Check record. The body of the comment
  names \<open>allowPullRequests\<close>.
\<close>

theorem jobHandler_permission_denied:
  assumes "m = decoded message"
    and "getInstallationGithub h (msg_installationId message) = Inr gh"
    and "resolve_sha gh m = Inr sha"
    and "repos_getContent gh (msg_organization m) (msg_repository m) ''.taskcluster.yml'' sha
           = Inr content"
    and "yaml_safeLoad h (base64_toString h content) = None"
    and "intree h (base64_toString h content) m = Inr graph"
    and "gc_tasks graph \<noteq> []"
    and "startsWith (event_type (msg_details m)) ''pull_request.''"
    and "prAllowed h (event_head_user_login (msg_details m)) (msg_organization m)
           (msg_repository m) gh m = Inr False"
    and "c = IssueComment (msg_organization m) (msg_repository m)
               (event_pullNumber (msg_details m)) permission_denied_body"
    and "issues_createComment gh c = None"
  shows "jobHandler h now message w = (Inr (), w\<lparr>comments := comments w @ [c]\<rparr>)
       \<and> (\<exists>before after. permission_denied_body = before @ ''allowPullRequests'' @ after)"
proof -
  have "jobHandler h now message w = (Inr (), w\<lparr>comments := comments w @ [c]\<rparr>)"
    using jobHandler_permission [OF assms(1-7), of now w] assms(8-11)
    by (simp add: permission_def Let_def)
  moreover have "\<exists>before after. permission_denied_body = before @ ''allowPullRequests'' @ after"
    using permission_denied_body_contains by blast
  ultimately show ?thesis by simp
qed

theorem jobHandler_permission_denied_witness:
  "jobHandler
     (scenario_env\<lparr>prAllowed := (\<lambda>login organization repository gh m. Inr False)\<rparr>) 200
     scenario_pull_request empty_world
   = (Inr (),
      empty_world\<lparr>comments :=
        [IssueComment ''org'' ''my.repo'' (Some 12) permission_denied_body]\<rparr>)"
  using
    jobHandler_permission_denied [of "decoded scenario_pull_request" scenario_pull_request
      "scenario_env\<lparr>prAllowed := (\<lambda>login organization repository gh m. Inr False)\<rparr>"
      scenario_github "''cafe02''" "''dmVyc2lvbjogMQ==''" scenario_graph
      "IssueComment ''org'' ''my.repo'' (Some 12) permission_denied_body" 200 empty_world]
  by (simp add: scenario_env_def scenario_github_def scenario_pull_request_def scenario_graph_def
      decoded_def resolve_sha_def unsanitize_def startsWith_def empty_world_def)

section \<open>Properties of jobHandler: the permission check that fails\<close>

text \<open>
  Whenever the permission check raises, nothing has been posted, and the handler fails:
  with the error of the permission check when its name is not \<open>YAMLException\<close>, and with
  the \<open>ReferenceError\<close> of line 405 when it is.
\<close>

lemma jobHandler_permission_raises:
  assumes "m = decoded message"
    and "getInstallationGithub h (msg_installationId message) = Inr gh"
    and "resolve_sha gh m = Inr sha"
    and "repos_getContent gh (msg_organization m) (msg_repository m) ''.taskcluster.yml'' sha
           = Inr content"
    and "yaml_safeLoad h (base64_toString h content) = None"
    and "intree h (base64_toString h content) m = Inr graph"
    and "gc_tasks graph \<noteq> []"
    and "startsWith (event_type (msg_details m)) ''pull_request.''"
    and "prAllowed h (event_head_user_login (msg_details m)) (msg_organization m)
           (msg_repository m) gh m = Inl e"
  shows "jobHandler h now message w =
           (if err_name e = ''YAMLException''
            then (Inl (ReferenceError ''branch is not defined''), w)
            else (Inl e, w))"
  using jobHandler_permission [OF assms(1-7), of now w] assms(8,9)
  by (simp add: permission_def permission_catch_def branch_def Let_def)

text \<open>
  Claim C8, at a pull request whose permission check raises a \<open>YAMLException\<close>: the
  handler fails with a \<open>ReferenceError\<close> and no comment is posted.
\<close>

theorem jobHandler_permission_yaml_error_raises:
  "jobHandler
     (scenario_env\<lparr>prAllowed := (\<lambda>login organization repository gh m. Inl yaml_error)\<rparr>) 200
     scenario_pull_request empty_world
   = (Inl (ReferenceError ''branch is not defined''), empty_world)"
  using
    jobHandler_permission_raises [of "decoded scenario_pull_request" scenario_pull_request
      "scenario_env\<lparr>prAllowed := (\<lambda>login organization repository gh m. Inl yaml_error)\<rparr>"
      scenario_github "''cafe02''" "''dmVyc2lvbjogMQ==''" scenario_graph yaml_error
      200 empty_world]
  by (simp add: scenario_env_def scenario_github_def scenario_pull_request_def scenario_graph_def
      decoded_def resolve_sha_def unsanitize_def startsWith_def yaml_error_def)

section \<open>Properties of jobHandler: the Build record that exists already\<close>

text \<open>
  Whenever the store answers \<^verbatim>\<open>Builds.create\<close> with the already-exists signal, the
  handler given to \<^verbatim>\<open>.catch\<close> fails on \<^verbatim>\<open>this.Builds.load\<close>, whatever the stored
  record is: no field is compared.
\<close>

lemma create_build_exists:
  assumes "Builds w taskGroupId = Some old"
    and "\<forall>b. Builds_create_fault h b = None"
  shows "create_build h m organization repository sha groupState taskGroupId now w =
           (Some (TypeError (''Cannot read property '' @ quoted ''load'' @ '' of undefined'')), w)"
  using assms
  by (simp add: create_build_def Builds_create_def Builds_create_catch_def this_Builds_def
      EntityAlreadyExists_def Let_def)

lemmas scenario_defs = scenario_env_def scenario_github_def scenario_push_def scenario_graph_def
  scenario_build_def scenario_check_def scenario_queued_def empty_world_def

lemmas jobHandler_defs = jobHandler_def parse_def compile_def permission_def submit_def
  submit_try_def bookkeeping_def create_check_run_def create_build_def Builds_create_def
  CheckRuns_create_def decoded_def resolve_sha_def unsanitize_def startsWith_def truthy_def
  template_def Let_def

lemma scenario_first_delivery:
  "jobHandler scenario_env 200 scenario_push empty_world = (Inr (), scenario_delivered)"
  by (simp add: jobHandler_defs scenario_defs scenario_delivered_def
      toString_nat.simps [of 5] toString_nat.simps [of 7])

text \<open>
  Claim C2, at the second delivery of the push of the scenario: the first delivery has
  created the Build record of the task group \<open>tg\<close>; the second one, with the same
  message, leaves the record as it is and fails with a \<open>TypeError\<close>, although every
  field of the record is equal to the one the second delivery computes.
\<close>

theorem jobHandler_duplicate_delivery_raises:
  "Builds scenario_delivered ''tg'' = Some (scenario_build ''queued'')
   \<and> fst (jobHandler scenario_env 200 scenario_push scenario_delivered)
       = Inl (TypeError (''Cannot read property '' @ quoted ''load'' @ '' of undefined''))
   \<and> Builds (snd (jobHandler scenario_env 200 scenario_push scenario_delivered))
       = Builds scenario_delivered"
  by (simp add: jobHandler_defs scenario_defs scenario_delivered_def Builds_create_catch_def
      this_Builds_def EntityAlreadyExists_def)

section \<open>Properties of jobHandler: submission and bookkeeping\<close>

lemma createTasks_frame:
  "Builds (snd (createTasks h scps ts w)) = Builds w
   \<and> CheckRuns (snd (createTasks h scps ts w)) = CheckRuns w
   \<and> comments (snd (createTasks h scps ts w)) = comments w
   \<and> check_runs (snd (createTasks h scps ts w)) = check_runs w
   \<and> check_updates (snd (createTasks h scps ts w)) = check_updates w"
  by (induction ts arbitrary: w) (auto split: option.splits)

lemma createExceptionComment_frame:
  "Builds (snd (createExceptionComment gh organization repository sha e pullNumber w)) = Builds w
   \<and> CheckRuns (snd (createExceptionComment gh organization repository sha e pullNumber w))
       = CheckRuns w
   \<and> check_runs (snd (createExceptionComment gh organization repository sha e pullNumber w))
       = check_runs w
   \<and> check_updates (snd (createExceptionComment gh organization repository sha e pullNumber w))
       = check_updates w
   \<and> queue_tasks (snd (createExceptionComment gh organization repository sha e pullNumber w))
       = queue_tasks w"
  by (simp add: createExceptionComment_def post_comment_def Let_def split: option.splits)

text \<open>One task, with a host that accepts the check-run and a store that has no fault.\<close>

lemma create_check_run_accepted:
  assumes "checks_create gh
             (check_run_request h organization repository sha eventType groupState taskGroupId i t)
           = Inr ids"
    and "\<forall>c. CheckRuns_create_fault h c = None"
  shows "\<exists>w'. create_check_run h gh organization repository sha eventType groupState taskGroupId
                 i t w = (None, w')
          \<and> check_runs w' = check_runs w @
               [check_run_request h organization repository sha eventType groupState taskGroupId i t]
          \<and> Builds w' = Builds w
          \<and> CheckRuns w' (taskGroupId, gt_taskId t) \<noteq> None
          \<and> (\<forall>k. CheckRuns w k \<noteq> None \<longrightarrow> CheckRuns w' k \<noteq> None)"
  using assms
  by (cases ids)
     (auto simp: create_check_run_def CheckRuns_create_def EntityAlreadyExists_def Let_def
        split: option.splits)

lemma create_check_runs_accepted:
  assumes "\<forall>req. \<exists>ids. checks_create gh req = Inr ids"
    and "\<forall>c. CheckRuns_create_fault h c = None"
  shows "\<exists>w'. create_check_runs h gh organization repository sha eventType groupState taskGroupId
                 i ts w = (None, w')
          \<and> check_runs w' = check_runs w @
               map (\<lambda>(j, t). check_run_request h organization repository sha eventType groupState
                               taskGroupId j t) (enumerate i ts)
          \<and> Builds w' = Builds w
          \<and> (\<forall>t \<in> set ts. CheckRuns w' (taskGroupId, gt_taskId t) \<noteq> None)
          \<and> (\<forall>k. CheckRuns w k \<noteq> None \<longrightarrow> CheckRuns w' k \<noteq> None)"
proof (induction ts arbitrary: i w)
  case Nil
  then show ?case by simp
next
  case (Cons t ts)
  from assms(1) obtain ids where
    "checks_create gh
       (check_run_request h organization repository sha eventType groupState taskGroupId i t)
     = Inr ids"
    by blast
  from create_check_run_accepted [OF this assms(2), of w] obtain w1 where
    one: "create_check_run h gh organization repository sha eventType groupState taskGroupId
            i t w = (None, w1)"
    and runs1: "check_runs w1 = check_runs w @
        [check_run_request h organization repository sha eventType groupState taskGroupId i t]"
    and builds1: "Builds w1 = Builds w"
    and key1: "CheckRuns w1 (taskGroupId, gt_taskId t) \<noteq> None"
    and mono1: "\<forall>k. CheckRuns w k \<noteq> None \<longrightarrow> CheckRuns w1 k \<noteq> None"
    by blast
  from Cons.IH [of "Suc i" w1] obtain w2 where
    rest: "create_check_runs h gh organization repository sha eventType groupState taskGroupId
             (Suc i) ts w1 = (None, w2)"
    and runs2: "check_runs w2 = check_runs w1 @
        map (\<lambda>(j, t). check_run_request h organization repository sha eventType groupState
                        taskGroupId j t) (enumerate (Suc i) ts)"
    and builds2: "Builds w2 = Builds w1"
    and keys2: "\<forall>t \<in> set ts. CheckRuns w2 (taskGroupId, gt_taskId t) \<noteq> None"
    and mono2: "\<forall>k. CheckRuns w1 k \<noteq> None \<longrightarrow> CheckRuns w2 k \<noteq> None"
    by blast
  have "create_check_runs h gh organization repository sha eventType groupState taskGroupId
          i (t # ts) w = (None, w2)"
    using one rest by simp
  moreover have "check_runs w2 = check_runs w @
      map (\<lambda>(j, t). check_run_request h organization repository sha eventType groupState
                      taskGroupId j t) (enumerate i (t # ts))"
    using runs1 runs2 by simp
  moreover have "Builds w2 = Builds w"
    using builds1 builds2 by simp
  moreover have "\<forall>t' \<in> set (t # ts). CheckRuns w2 (taskGroupId, gt_taskId t') \<noteq> None"
    using key1 keys2 mono2 by auto
  moreover have "\<forall>k. CheckRuns w k \<noteq> None \<longrightarrow> CheckRuns w2 k \<noteq> None"
    using mono1 mono2 by blast
  ultimately show ?case by blast
qed

text \<open>The whole \<^verbatim>\<open>finally\<close> block, for a task group that has no Build record yet.\<close>

lemma bookkeeping_accepted:
  assumes "\<forall>req. \<exists>ids. checks_create gh req = Inr ids"
    and "\<forall>c. CheckRuns_create_fault h c = None"
    and "\<forall>b. Builds_create_fault h b = None"
    and "Builds w taskGroupId = None"
  shows "\<exists>w'. bookkeeping h gh m organization repository sha graph groupState taskGroupId now w
                 = (None, w')
          \<and> check_runs w' = check_runs w @
               map (\<lambda>(j, t). check_run_request h organization repository sha
                               (event_type (msg_details m)) groupState taskGroupId j t)
                 (enumerate 0 (gc_tasks graph))
          \<and> (\<forall>t \<in> set (gc_tasks graph). CheckRuns w' (taskGroupId, gt_taskId t) \<noteq> None)
          \<and> Builds w' = (Builds w)(taskGroupId \<mapsto>
               \<lparr>build_organization = organization,
                build_repository = repository,
                build_sha = sha,
                build_taskGroupId = taskGroupId,
                build_state = (if truthy (gs_conclusion groupState)
                               then template (gs_conclusion groupState)
                               else gs_status groupState),
                build_created = now,
                build_updated = now,
                build_installationId = msg_installationId m,
                build_eventType = event_type (msg_details m),
                build_eventId = msg_eventId m\<rparr>)"
proof -
  from create_check_runs_accepted [OF assms(1,2), of organization repository sha
      "event_type (msg_details m)" groupState taskGroupId 0 "gc_tasks graph" w]
  obtain w1 where
    runs: "create_check_runs h gh organization repository sha (event_type (msg_details m))
             groupState taskGroupId 0 (gc_tasks graph) w = (None, w1)"
    and r1: "check_runs w1 = check_runs w @
        map (\<lambda>(j, t). check_run_request h organization repository sha
                        (event_type (msg_details m)) groupState taskGroupId j t)
          (enumerate 0 (gc_tasks graph))"
    and b1: "Builds w1 = Builds w"
    and k1: "\<forall>t \<in> set (gc_tasks graph). CheckRuns w1 (taskGroupId, gt_taskId t) \<noteq> None"
    by blast
  show ?thesis
    using runs r1 b1 k1 assms(3,4)
    by (simp add: bookkeeping_def create_build_def Builds_create_def Let_def)
qed

text \<open>
  Claim C3. For a message that reaches the submission (the configuration was fetched,
  parsed and compiled to at least one task, and the permission check, if any, allowed it),
  with a host that accepts the check-runs, stores without fault and a task group that has
  no Build record yet: whether \<open>createTasks\<close> fails or not, and whether the comment about
  the failure can be posted or not, the handler creates one check-run per task of the
  graph, in order, a Check record exists for every task, and the Build record of the task
  group is created. When \<open>createTasks\<close> fails, each check-run has status \<open>completed\<close> and
  conclusion \<open>failure\<close> and the Build record has state \<open>failure\<close>; when it succeeds, each
  check-run has status \<open>queued\<close> and the Build record has state \<open>queued\<close>.
\<close>

theorem jobHandler_bookkeeping_after_submission:
  assumes "m = decoded message"
    and "getInstallationGithub h (msg_installationId message) = Inr gh"
    and "resolve_sha gh m = Inr sha"
    and "repos_getContent gh (msg_organization m) (msg_repository m) ''.taskcluster.yml'' sha
           = Inr content"
    and "yaml_safeLoad h (base64_toString h content) = None"
    and "intree h (base64_toString h content) m = Inr graph"
    and "gc_tasks graph \<noteq> []"
    and "startsWith (event_type (msg_details m)) ''pull_request.'' \<longrightarrow>
           prAllowed h (event_head_user_login (msg_details m)) (msg_organization m)
             (msg_repository m) gh m = Inr True"
    and "\<forall>req. \<exists>ids. checks_create gh req = Inr ids"
    and "\<forall>c. CheckRuns_create_fault h c = None"
    and "\<forall>b. Builds_create_fault h b = None"
    and "taskGroupId = def_taskGroupId (gt_task (hd (gc_tasks graph)))"
    and "Builds w taskGroupId = None"
    and "failed \<longleftrightarrow> fst (createTasks h (gc_scopes graph) (gc_tasks graph) w) \<noteq> None"
    and "groupState =
           (if failed
            then \<lparr>gs_status = ''completed'', gs_conclusion = Some ''failure'',
                  gs_completed_at = Some (toISOString h now)\<rparr>
            else \<lparr>gs_status = ''queued'', gs_conclusion = None, gs_completed_at = None\<rparr>)"
    and "w' = snd (jobHandler h now message w)"
  shows "check_runs w' = check_runs w @
           map (\<lambda>(i, t). check_run_request h (msg_organization m) (msg_repository m) sha
                           (event_type (msg_details m)) groupState taskGroupId i t)
             (enumerate 0 (gc_tasks graph))
       \<and> length (check_runs w') = length (check_runs w) + length (gc_tasks graph)
       \<and> (\<forall>c \<in> set (drop (length (check_runs w)) (check_runs w')).
             cc_status c = (if failed then ''completed'' else ''queued'')
             \<and> cc_conclusion c = (if failed then Some ''failure'' else None))
       \<and> (\<forall>t \<in> set (gc_tasks graph). \<exists>c. CheckRuns w' (taskGroupId, gt_taskId t) = Some c)
       \<and> (\<exists>b. Builds w' taskGroupId = Some b
              \<and> build_state b = (if failed then ''failure'' else ''queued'')
              \<and> build_organization b = msg_organization m
              \<and> build_repository b = msg_repository m
              \<and> build_sha b = sha)"
proof -
  let ?org = "msg_organization m" and ?repo = "msg_repository m"
  let ?new = "map (\<lambda>(i, t). check_run_request h ?org ?repo sha (event_type (msg_details m))
                              groupState taskGroupId i t) (enumerate 0 (gc_tasks graph))"
  have handler: "jobHandler h now message w = submit h gh m ?org ?repo sha graph now w"
    using jobHandler_submit [OF assms(1-8)] .
  from assms(7) obtain t0 rest where tasks: "gc_tasks graph = t0 # rest"
    by (cases "gc_tasks graph") auto
  then have tg: "taskGroupId = def_taskGroupId (gt_task t0)"
    using assms(12) by simp
  obtain r w1 where created: "createTasks h (gc_scopes graph) (gc_tasks graph) w = (r, w1)"
    by (cases "createTasks h (gc_scopes graph) (gc_tasks graph) w") auto
  have frame1: "Builds w1 = Builds w" "check_runs w1 = check_runs w"
    using createTasks_frame [of h "gc_scopes graph" "gc_tasks graph" w] created by simp_all
  have state: "(if truthy (gs_conclusion groupState) then template (gs_conclusion groupState)
                else gs_status groupState) = (if failed then ''failure'' else ''queued'')"
    using assms(15) by (simp add: truthy_def template_def)
  have main: "check_runs w' = check_runs w @ ?new
       \<and> (\<forall>t \<in> set (gc_tasks graph). CheckRuns w' (taskGroupId, gt_taskId t) \<noteq> None)
       \<and> (\<exists>b. Builds w' taskGroupId = Some b
              \<and> build_state b = (if failed then ''failure'' else ''queued'')
              \<and> build_organization b = ?org \<and> build_repository b = ?repo \<and> build_sha b = sha)"
  proof (cases r)
    case None
    then have nf: "\<not> failed" using assms(14) created by simp
    have fresh: "Builds w1 taskGroupId = None"
      using frame1 assms(13) by simp
    from bookkeeping_accepted [OF assms(9-11) fresh, of m ?org ?repo sha graph groupState now]
    obtain w2 where
      bk: "bookkeeping h gh m ?org ?repo sha graph groupState taskGroupId now w1 = (None, w2)"
      and runs: "check_runs w2 = check_runs w1 @ ?new"
      and keys: "\<forall>t \<in> set (gc_tasks graph). CheckRuns w2 (taskGroupId, gt_taskId t) \<noteq> None"
      and builds: "Builds w2 taskGroupId \<noteq> None \<and>
                   build_state (the (Builds w2 taskGroupId))
                     = (if failed then ''failure'' else ''queued'')
                   \<and> build_organization (the (Builds w2 taskGroupId)) = ?org
                   \<and> build_repository (the (Builds w2 taskGroupId)) = ?repo
                   \<and> build_sha (the (Builds w2 taskGroupId)) = sha"
      using state by auto
    have "w' = w2"
      using assms(16) handler created None tasks tg bk assms(15) nf
      by (simp add: submit_def submit_try_def)
    then show ?thesis
      using runs keys builds frame1 by auto
  next
    case (Some e)
    then have f: failed using assms(14) created by simp
    obtain thrown w2 where
      commented: "createExceptionComment gh ?org ?repo sha e None w1 = (thrown, w2)"
      by (cases "createExceptionComment gh ?org ?repo sha e None w1") auto
    have frame2: "Builds w2 = Builds w1" "check_runs w2 = check_runs w1"
      using createExceptionComment_frame [of gh ?org ?repo sha e None w1] commented by simp_all
    have fresh: "Builds w2 taskGroupId = None"
      using frame1 frame2 assms(13) by simp
    from bookkeeping_accepted [OF assms(9-11) fresh, of m ?org ?repo sha graph groupState now]
    obtain w3 where
      bk: "bookkeeping h gh m ?org ?repo sha graph groupState taskGroupId now w2 = (None, w3)"
      and runs: "check_runs w3 = check_runs w2 @ ?new"
      and keys: "\<forall>t \<in> set (gc_tasks graph). CheckRuns w3 (taskGroupId, gt_taskId t) \<noteq> None"
      and builds: "Builds w3 taskGroupId \<noteq> None \<and>
                   build_state (the (Builds w3 taskGroupId))
                     = (if failed then ''failure'' else ''queued'')
                   \<and> build_organization (the (Builds w3 taskGroupId)) = ?org
                   \<and> build_repository (the (Builds w3 taskGroupId)) = ?repo
                   \<and> build_sha (the (Builds w3 taskGroupId)) = sha"
      using state by auto
    have "w' = w3"
      using assms(16) handler created Some tasks tg commented bk assms(15) f
      by (simp add: submit_def submit_try_def)
    then show ?thesis
      using runs keys builds frame1 frame2 by auto
  qed
  have fields: "\<forall>c \<in> set ?new.
      cc_status c = (if failed then ''completed'' else ''queued'')
      \<and> cc_conclusion c = (if failed then Some ''failure'' else None)"
    using assms(15) by (auto simp: check_run_request_def)
  from main have "drop (length (check_runs w)) (check_runs w') = ?new"
    by simp
  with main fields show ?thesis
    by auto
qed

theorem jobHandler_bookkeeping_after_submission_witness:
  "fst (createTasks scenario_env_refusing (gc_scopes scenario_graph) (gc_tasks scenario_graph)
          empty_world) \<noteq> None
   \<and> map (\<lambda>c. (cc_details_url c, cc_status c, cc_conclusion c))
       (check_runs (snd (jobHandler scenario_env_refusing 200 scenario_push empty_world)))
     = [(INSPECTOR_URL @ ''tg/tasks/t1/details'', ''completed'', Some ''failure''),
        (INSPECTOR_URL @ ''tg/tasks/t2/details'', ''completed'', Some ''failure'')]
   \<and> (\<exists>c. CheckRuns (snd (jobHandler scenario_env_refusing 200 scenario_push empty_world))
              (''tg'', ''t1'') = Some c)
   \<and> (\<exists>c. CheckRuns (snd (jobHandler scenario_env_refusing 200 scenario_push empty_world))
              (''tg'', ''t2'') = Some c)
   \<and> (\<exists>b. Builds (snd (jobHandler scenario_env_refusing 200 scenario_push empty_world)) ''tg''
              = Some b \<and> build_state b = ''failure'')"
proof -
  let ?h = scenario_env_refusing and ?m = "decoded scenario_push"
  let ?w' = "snd (jobHandler scenario_env_refusing 200 scenario_push empty_world)"
  have m: "msg_organization ?m = ''org''" "msg_repository ?m = ''my.repo''"
    "event_type (msg_details ?m) = ''push''"
    by (simp_all add: decoded_def scenario_push_def unsanitize_def)
  have auth: "getInstallationGithub ?h (msg_installationId scenario_push) = Inr scenario_github"
    by (simp add: scenario_env_refusing_def scenario_env_def)
  have sha: "resolve_sha scenario_github ?m = Inr ''cafe01''"
    by (simp add: resolve_sha_def decoded_def scenario_push_def)
  have fetch: "repos_getContent scenario_github (msg_organization ?m) (msg_repository ?m)
                 ''.taskcluster.yml'' ''cafe01'' = Inr ''dmVyc2lvbjogMQ==''"
    by (simp add: scenario_github_def)
  have yaml: "yaml_safeLoad ?h (base64_toString ?h ''dmVyc2lvbjogMQ=='') = None"
    by (simp add: scenario_env_refusing_def scenario_env_def)
  have graph: "intree ?h (base64_toString ?h ''dmVyc2lvbjogMQ=='') ?m = Inr scenario_graph"
    by (simp add: scenario_env_refusing_def scenario_env_def)
  have tasks: "gc_tasks scenario_graph \<noteq> []"
    by (simp add: scenario_graph_def)
  have allowed: "startsWith (event_type (msg_details ?m)) ''pull_request.'' \<longrightarrow>
      prAllowed ?h (event_head_user_login (msg_details ?m)) (msg_organization ?m)
        (msg_repository ?m) scenario_github ?m = Inr True"
    by (simp add: scenario_env_refusing_def scenario_env_def)
  have host: "\<forall>req. \<exists>ids. checks_create scenario_github req = Inr ids"
    by (simp add: scenario_github_def)
  have checks: "\<forall>c. CheckRuns_create_fault ?h c = None"
    and builds: "\<forall>b. Builds_create_fault ?h b = None"
    by (simp_all add: scenario_env_refusing_def scenario_env_def)
  have tg: "''tg'' = def_taskGroupId (gt_task (hd (gc_tasks scenario_graph)))"
    by (simp add: scenario_graph_def)
  have fresh: "Builds empty_world ''tg'' = None"
    by (simp add: empty_world_def)
  have failed: "fst (createTasks ?h (gc_scopes scenario_graph) (gc_tasks scenario_graph)
                       empty_world) \<noteq> None"
    by (simp add: scenario_env_refusing_def scenario_env_def scenario_graph_def)
  then have f: "True \<longleftrightarrow> fst (createTasks ?h (gc_scopes scenario_graph)
                                 (gc_tasks scenario_graph) empty_world) \<noteq> None"
    by simp
  have gs: "scenario_failure =
      (if True
       then \<lparr>gs_status = ''completed'', gs_conclusion = Some ''failure'',
             gs_completed_at = Some (toISOString ?h 200)\<rparr>
       else \<lparr>gs_status = ''queued'', gs_conclusion = None, gs_completed_at = None\<rparr>)"
    by (simp add: scenario_failure_def scenario_env_refusing_def scenario_env_def)
  have w': "?w' = snd (jobHandler ?h 200 scenario_push empty_world)"
    by simp
  note all = jobHandler_bookkeeping_after_submission
    [OF refl auth sha fetch yaml graph tasks allowed host checks builds tg fresh f gs w']
  from all have runs: "check_runs ?w' = check_runs empty_world @
      map (\<lambda>(i, t). check_run_request ?h ''org'' ''my.repo'' ''cafe01'' ''push''
                      scenario_failure ''tg'' i t) (enumerate 0 (gc_tasks scenario_graph))"
    using m by simp
  have urls: "map (\<lambda>c. (cc_details_url c, cc_status c, cc_conclusion c)) (check_runs ?w')
     = [(INSPECTOR_URL @ ''tg/tasks/t1/details'', ''completed'', Some ''failure''),
        (INSPECTOR_URL @ ''tg/tasks/t2/details'', ''completed'', Some ''failure'')]"
    unfolding runs
    by (simp add: scenario_graph_def empty_world_def check_run_request_def scenario_failure_def)
  from all have records: "\<forall>t \<in> set (gc_tasks scenario_graph).
      \<exists>c. CheckRuns ?w' (''tg'', gt_taskId t) = Some c"
    by blast
  then have t1: "\<exists>c. CheckRuns ?w' (''tg'', ''t1'') = Some c"
    and t2: "\<exists>c. CheckRuns ?w' (''tg'', ''t2'') = Some c"
    by (simp_all add: scenario_graph_def)
  from all have build: "\<exists>b. Builds ?w' ''tg'' = Some b \<and> build_state b = ''failure''"
    by auto
  from failed urls t1 t2 build show ?thesis
    by blast
qed

section \<open>Properties of jobHandler: the task-group identifier\<close>

text \<open>The handler with the variable recorded has the outcome of the handler.\<close>

lemma submit_run_outcome:
  "snd (submit_run h gh m organization repository sha graph now ''nonexistent'' w)
     = submit h gh m organization repository sha graph now w"
  by (simp add: submit_run_def submit_def)

lemma permission_run_outcome:
  "snd (permission_run h gh m organization repository sha pullNumber graph now ''nonexistent'' w)
     = permission h gh m organization repository sha pullNumber graph now w"
  by (simp add: permission_run_def permission_def submit_run_outcome Let_def
      split: sum.splits)

lemma compile_run_outcome:
  "snd (compile_run h gh m organization repository sha pullNumber repoconf now w)
     = compile h gh m organization repository sha pullNumber repoconf now w"
  by (simp add: compile_run_def compile_def permission_run_outcome Let_def split: sum.splits)

lemma parse_run_outcome:
  "snd (parse_run h gh m organization repository sha pullNumber repoconf now w)
     = parse h gh m organization repository sha pullNumber repoconf now w"
  by (simp add: parse_run_def parse_def compile_run_outcome split: option.splits)

lemma jobHandler_run_outcome:
  "snd (jobHandler_run h now message w) = jobHandler h now message w"
  by (simp add: jobHandler_run_def jobHandler_def parse_run_outcome Let_def split: sum.splits)

text \<open>What the queue holds after \<open>createTasks\<close>: what it held, and the tasks it accepted.\<close>

lemma createTasks_queue_exact:
  "queue_tasks (snd (createTasks h scps ts w)) =
     queue_tasks w @
       map (\<lambda>t. (scps, gt_taskId t, gt_task t))
         (filter (\<lambda>t. queue_createTask h scps (gt_taskId t) (gt_task t) = None) ts)"
  by (induction ts arbitrary: w) (auto split: option.splits)

text \<open>A permission check that does not allow the message leaves only comments behind.\<close>

lemma permission_stopped:
  assumes "startsWith (event_type (msg_details m)) ''pull_request.''
           \<and> prAllowed h (event_head_user_login (msg_details m)) organization repository gh m
               \<noteq> Inr True"
    and "w' = snd (permission h gh m organization repository sha pullNumber graph now w)"
  shows "check_runs w' = check_runs w \<and> CheckRuns w' = CheckRuns w \<and> Builds w' = Builds w
       \<and> queue_tasks w' = queue_tasks w"
  using assms
  by (auto simp: permission_def permission_catch_def post_comment_def Let_def
      split: sum.splits option.splits)

text \<open>What one task's check-run and Check record can change, whatever the host answers.\<close>

lemma create_check_run_effect:
  assumes "create_check_run h gh organization repository sha eventType groupState taskGroupId
             i t w = (r, w')"
  shows "(check_runs w' = check_runs w
            \<or> check_runs w' = check_runs w @
                 [check_run_request h organization repository sha eventType groupState
                    taskGroupId i t])
       \<and> Builds w' = Builds w
       \<and> queue_tasks w' = queue_tasks w
       \<and> (\<forall>k. CheckRuns w' k \<noteq> CheckRuns w k \<longrightarrow>
             k = (taskGroupId, gt_taskId t)
             \<and> (\<exists>c. CheckRuns w' k = Some c \<and> check_taskGroupId c = taskGroupId))"
  using assms
  by (auto simp: create_check_run_def CheckRuns_create_def Let_def
      split: sum.splits option.splits prod.splits if_splits)

lemma create_check_runs_effect:
  assumes "create_check_runs h gh organization repository sha eventType groupState taskGroupId
             i ts w = (r, w')"
  shows "(\<exists>new. check_runs w' = check_runs w @ new
            \<and> (\<forall>c \<in> set new. \<exists>t \<in> set ts.
                  cc_details_url c =
                    INSPECTOR_URL @ taskGroupId @ ''/tasks/'' @ gt_taskId t @ ''/details''))
       \<and> Builds w' = Builds w
       \<and> queue_tasks w' = queue_tasks w
       \<and> (\<forall>k. CheckRuns w' k \<noteq> CheckRuns w k \<longrightarrow>
             fst k = taskGroupId
             \<and> (\<exists>c. CheckRuns w' k = Some c \<and> check_taskGroupId c = taskGroupId))"
  using assms
proof (induction ts arbitrary: i w r w')
  case Nil
  then show ?case by simp
next
  case (Cons t ts)
  obtain r1 w1 where one:
    "create_check_run h gh organization repository sha eventType groupState taskGroupId
       i t w = (r1, w1)"
    by (cases "create_check_run h gh organization repository sha eventType groupState
                 taskGroupId i t w") auto
  obtain r2 w2 where rest:
    "create_check_runs h gh organization repository sha eventType groupState taskGroupId
       (Suc i) ts w1 = (r2, w2)"
    by (cases "create_check_runs h gh organization repository sha eventType groupState
                 taskGroupId (Suc i) ts w1") auto
  have w': "w' = w2"
    using Cons.prems one rest by simp
  note e1 = create_check_run_effect [OF one]
  note e2 = Cons.IH [OF rest]
  from e2 obtain new2 where
    new2: "check_runs w2 = check_runs w1 @ new2"
    and urls2: "\<forall>c \<in> set new2. \<exists>t \<in> set ts.
        cc_details_url c = INSPECTOR_URL @ taskGroupId @ ''/tasks/'' @ gt_taskId t @ ''/details''"
    by blast
  have url1: "cc_details_url (check_run_request h organization repository sha eventType
                 groupState taskGroupId i t)
              = INSPECTOR_URL @ taskGroupId @ ''/tasks/'' @ gt_taskId t @ ''/details''"
    by (simp add: check_run_request_def)
  from e1 have "check_runs w1 = check_runs w @ []
      \<or> check_runs w1 = check_runs w @
           [check_run_request h organization repository sha eventType groupState taskGroupId i t]"
    by simp
  then have runs: "\<exists>new. check_runs w2 = check_runs w @ new
      \<and> (\<forall>c \<in> set new. \<exists>t' \<in> set (t # ts).
            cc_details_url c =
              INSPECTOR_URL @ taskGroupId @ ''/tasks/'' @ gt_taskId t' @ ''/details'')"
  proof
    assume "check_runs w1 = check_runs w @ []"
    then have "check_runs w2 = check_runs w @ new2"
      using new2 by simp
    moreover have "\<forall>c \<in> set new2. \<exists>t' \<in> set (t # ts).
        cc_details_url c = INSPECTOR_URL @ taskGroupId @ ''/tasks/'' @ gt_taskId t' @ ''/details''"
      using urls2 by auto
    ultimately show ?thesis by blast
  next
    assume "check_runs w1 = check_runs w @
        [check_run_request h organization repository sha eventType groupState taskGroupId i t]"
    then have "check_runs w2 = check_runs w @
        (check_run_request h organization repository sha eventType groupState taskGroupId i t
           # new2)"
      using new2 by simp
    moreover have "\<forall>c \<in> set (check_run_request h organization repository sha eventType
                                groupState taskGroupId i t # new2).
        \<exists>t' \<in> set (t # ts).
          cc_details_url c = INSPECTOR_URL @ taskGroupId @ ''/tasks/'' @ gt_taskId t' @ ''/details''"
      using urls2 url1 by auto
    ultimately show ?thesis by blast
  qed
  have records: "\<forall>k. CheckRuns w2 k \<noteq> CheckRuns w k \<longrightarrow>
      fst k = taskGroupId \<and> (\<exists>c. CheckRuns w2 k = Some c \<and> check_taskGroupId c = taskGroupId)"
  proof (intro allI impI)
    fix k
    assume changed: "CheckRuns w2 k \<noteq> CheckRuns w k"
    show "fst k = taskGroupId
          \<and> (\<exists>c. CheckRuns w2 k = Some c \<and> check_taskGroupId c = taskGroupId)"
    proof (cases "CheckRuns w2 k = CheckRuns w1 k")
      case True
      with changed have "CheckRuns w1 k \<noteq> CheckRuns w k" by simp
      with e1 have "k = (taskGroupId, gt_taskId t)
          \<and> (\<exists>c. CheckRuns w1 k = Some c \<and> check_taskGroupId c = taskGroupId)"
        by blast
      with True show ?thesis by auto
    next
      case False
      with e2 show ?thesis by blast
    qed
  qed
  from e1 e2 have frame: "Builds w2 = Builds w" "queue_tasks w2 = queue_tasks w"
    by simp_all
  show ?case
    unfolding w' using runs records frame by blast
qed

lemma create_build_effect:
  assumes "create_build h m organization repository sha groupState taskGroupId now w = (r, w')"
  shows "check_runs w' = check_runs w
       \<and> CheckRuns w' = CheckRuns w
       \<and> queue_tasks w' = queue_tasks w
       \<and> (\<forall>k. Builds w' k \<noteq> Builds w k \<longrightarrow>
             k = taskGroupId \<and> (\<exists>b. Builds w' k = Some b \<and> build_taskGroupId b = taskGroupId))"
  using assms
  by (auto simp: create_build_def Builds_create_def Let_def
      split: sum.splits option.splits prod.splits if_splits)

lemma bookkeeping_effect:
  assumes "bookkeeping h gh m organization repository sha graph groupState taskGroupId now w
             = (r, w')"
  shows "(\<exists>new. check_runs w' = check_runs w @ new
            \<and> (\<forall>c \<in> set new. \<exists>t \<in> set (gc_tasks graph).
                  cc_details_url c =
                    INSPECTOR_URL @ taskGroupId @ ''/tasks/'' @ gt_taskId t @ ''/details''))
       \<and> queue_tasks w' = queue_tasks w
       \<and> (\<forall>k. CheckRuns w' k \<noteq> CheckRuns w k \<longrightarrow>
             fst k = taskGroupId
             \<and> (\<exists>c. CheckRuns w' k = Some c \<and> check_taskGroupId c = taskGroupId))
       \<and> (\<forall>k. Builds w' k \<noteq> Builds w k \<longrightarrow>
             k = taskGroupId \<and> (\<exists>b. Builds w' k = Some b \<and> build_taskGroupId b = taskGroupId))"
proof -
  obtain r1 w1 where runs:
    "create_check_runs h gh organization repository sha (event_type (msg_details m)) groupState
       taskGroupId 0 (gc_tasks graph) w = (r1, w1)"
    by (cases "create_check_runs h gh organization repository sha (event_type (msg_details m))
                 groupState taskGroupId 0 (gc_tasks graph) w") auto
  note e1 = create_check_runs_effect [OF runs]
  show ?thesis
  proof (cases r1)
    case (Some e)
    then have w': "w' = w1"
      using assms runs by (simp add: bookkeeping_def)
    from e1 have "\<forall>k. Builds w1 k \<noteq> Builds w k \<longrightarrow>
        k = taskGroupId \<and> (\<exists>b. Builds w1 k = Some b \<and> build_taskGroupId b = taskGroupId)"
      by simp
    with e1 show ?thesis
      unfolding w' by blast
  next
    case None
    then have "create_build h m organization repository sha groupState taskGroupId now w1
                 = (r, w')"
      using assms runs by (simp add: bookkeeping_def)
    note e2 = create_build_effect [OF this]
    from e1 e2 have runs': "\<exists>new. check_runs w' = check_runs w @ new
        \<and> (\<forall>c \<in> set new. \<exists>t \<in> set (gc_tasks graph).
              cc_details_url c =
                INSPECTOR_URL @ taskGroupId @ ''/tasks/'' @ gt_taskId t @ ''/details'')"
      by auto
    from e1 e2 have queue': "queue_tasks w' = queue_tasks w"
      by auto
    from e1 e2 have records': "\<forall>k. CheckRuns w' k \<noteq> CheckRuns w k \<longrightarrow>
        fst k = taskGroupId
        \<and> (\<exists>c. CheckRuns w' k = Some c \<and> check_taskGroupId c = taskGroupId)"
      by auto
    from e1 e2 have builds': "\<forall>k. Builds w' k \<noteq> Builds w k \<longrightarrow>
        k = taskGroupId \<and> (\<exists>b. Builds w' k = Some b \<and> build_taskGroupId b = taskGroupId)"
      by auto
    from runs' queue' records' builds' show ?thesis
      by blast
  qed
qed

lemma scenario_mixed_delivery:
  "jobHandler scenario_env_mixed 200 scenario_push empty_world = (Inr (), scenario_mixed_delivered)"
  by (simp add: jobHandler_defs scenario_defs scenario_env_mixed_def scenario_mixed_graph_def
      scenario_mixed_delivered_def check_run_request_def
      toString_nat.simps [of 5] toString_nat.simps [of 7])

text \<open>
  Claim C10 as it is written fails for task submission. With a compiler that answers two
  tasks in two task groups, the first task's definition carries \<open>tgA\<close>, the check-runs,
  the Check records and the Build record use \<open>tgA\<close>, and the second task is submitted
  with its own definition, in the task group \<open>tgB\<close>.
\<close>

theorem jobHandler_taskGroupId_counterexample:
  "def_taskGroupId (gt_task (hd (gc_tasks scenario_mixed_graph))) = ''tgA''
   \<and> intree scenario_env_mixed ''version: 1'' (decoded scenario_push) = Inr scenario_mixed_graph
   \<and> queue_tasks (snd (jobHandler scenario_env_mixed 200 scenario_push empty_world))
       = [(gc_scopes scenario_mixed_graph, ''t1'', \<lparr>def_taskGroupId = ''tgA''\<rparr>),
          (gc_scopes scenario_mixed_graph, ''t2'', \<lparr>def_taskGroupId = ''tgB''\<rparr>)]
   \<and> \<not> (\<forall>x \<in> set (queue_tasks
                       (snd (jobHandler scenario_env_mixed 200 scenario_push empty_world))).
           def_taskGroupId (snd (snd x))
             = def_taskGroupId (gt_task (hd (gc_tasks scenario_mixed_graph))))"
proof -
  have first: "def_taskGroupId (gt_task (hd (gc_tasks scenario_mixed_graph))) = ''tgA''"
    by (simp add: scenario_mixed_graph_def)
  have compiled: "intree scenario_env_mixed ''version: 1'' (decoded scenario_push)
                    = Inr scenario_mixed_graph"
    by (simp add: scenario_env_mixed_def scenario_env_def)
  have world: "snd (jobHandler scenario_env_mixed 200 scenario_push empty_world)
                 = scenario_mixed_delivered"
    by (simp add: scenario_mixed_delivery)
  have submitted: "queue_tasks scenario_mixed_delivered
      = [(gc_scopes scenario_mixed_graph, ''t1'', \<lparr>def_taskGroupId = ''tgA''\<rparr>),
         (gc_scopes scenario_mixed_graph, ''t2'', \<lparr>def_taskGroupId = ''tgB''\<rparr>)]"
    by (simp add: scenario_mixed_delivered_def)
  show ?thesis
    unfolding world submitted first using compiled by simp
qed

text \<open>
  Claim C10, amended. For a message whose compiled graph is not empty, let the identifier
  be the one of the first compiled task's definition. Whatever the collaborators answer:
  every check-run this invocation creates has a details link built from that identifier
  and the identifier of a task of the graph; every Check record it creates or changes is
  keyed by that identifier and stores it; the only Build record it can create is keyed by
  that identifier and stores it. Task submission does not use the identifier: when the
  permission check, if any, allows the message, \<open>createTasks\<close> sends every compiled task
  under the compiled scopes with its own definition, unchanged, so what the queue holds
  afterwards is what it held and the compiled tasks it accepted, in order, all of them
  when it accepts them all; when the permission check stops the handler, nothing is
  submitted. The variable of the handler holds the placeholder \<open>nonexistent\<close> from its
  declaration, and then, once line 422 has assigned it, that identifier.
\<close>

theorem jobHandler_taskGroupId:
  assumes "m = decoded message"
    and "getInstallationGithub h (msg_installationId message) = Inr gh"
    and "resolve_sha gh m = Inr sha"
    and "repos_getContent gh (msg_organization m) (msg_repository m) ''.taskcluster.yml'' sha
           = Inr content"
    and "yaml_safeLoad h (base64_toString h content) = None"
    and "intree h (base64_toString h content) m = Inr graph"
    and "gc_tasks graph \<noteq> []"
    and "allowed \<longleftrightarrow>
           (startsWith (event_type (msg_details m)) ''pull_request.'' \<longrightarrow>
              prAllowed h (event_head_user_login (msg_details m)) (msg_organization m)
                (msg_repository m) gh m = Inr True)"
    and "taskGroupId = def_taskGroupId (gt_task (hd (gc_tasks graph)))"
    and "w' = snd (jobHandler h now message w)"
  shows "(\<exists>new. check_runs w' = check_runs w @ new
            \<and> (\<forall>c \<in> set new. \<exists>t \<in> set (gc_tasks graph).
                  cc_details_url c =
                    INSPECTOR_URL @ taskGroupId @ ''/tasks/'' @ gt_taskId t @ ''/details''))
       \<and> (\<forall>k. CheckRuns w' k \<noteq> CheckRuns w k \<longrightarrow>
             fst k = taskGroupId
             \<and> (\<exists>c. CheckRuns w' k = Some c \<and> check_taskGroupId c = taskGroupId))
       \<and> (\<forall>k. Builds w' k \<noteq> Builds w k \<longrightarrow>
             k = taskGroupId \<and> (\<exists>b. Builds w' k = Some b \<and> build_taskGroupId b = taskGroupId))
       \<and> queue_tasks w' = queue_tasks w @
            (if allowed
             then map (\<lambda>t. (gc_scopes graph, gt_taskId t, gt_task t))
                    (filter (\<lambda>t. queue_createTask h (gc_scopes graph) (gt_taskId t) (gt_task t)
                                  = None)
                       (gc_tasks graph))
             else [])
       \<and> (allowed \<and> (\<forall>t \<in> set (gc_tasks graph).
                         queue_createTask h (gc_scopes graph) (gt_taskId t) (gt_task t) = None)
            \<longrightarrow> queue_tasks w' = queue_tasks w @
                  map (\<lambda>t. (gc_scopes graph, gt_taskId t, gt_task t)) (gc_tasks graph))
       \<and> jobHandler_run h now message w =
            (if allowed then [''nonexistent'', taskGroupId] else [''nonexistent''],
             jobHandler h now message w)"
proof -
  let ?org = "msg_organization m" and ?repo = "msg_repository m"
  let ?pn = "event_pullNumber (msg_details m)"
  let ?sent = "map (\<lambda>t. (gc_scopes graph, gt_taskId t, gt_task t))
                 (filter (\<lambda>t. queue_createTask h (gc_scopes graph) (gt_taskId t) (gt_task t)
                               = None)
                    (gc_tasks graph))"
  from assms(7) obtain t0 rest where tasks: "gc_tasks graph = t0 # rest"
    by (cases "gc_tasks graph") auto
  then have tg: "taskGroupId = def_taskGroupId (gt_task t0)"
    using assms(9) by simp
  have run: "jobHandler_run h now message w =
               permission_run h gh m ?org ?repo sha ?pn graph now ''nonexistent'' w"
    using assms(1-7)
    by (simp add: jobHandler_run_def parse_run_def compile_run_def Let_def)
  have held: "fst (permission_run h gh m ?org ?repo sha ?pn graph now ''nonexistent'' w)
                  = (if allowed then [''nonexistent'', taskGroupId] else [''nonexistent''])"
  proof (cases allowed)
    case True
    then have "permission_run h gh m ?org ?repo sha ?pn graph now ''nonexistent'' w
                 = submit_run h gh m ?org ?repo sha graph now ''nonexistent'' w"
      using assms(8) by (simp add: permission_run_def Let_def)
    then show ?thesis
      using True tasks tg by (simp add: submit_run_def assigned_def)
  next
    case False
    then have pr: "startsWith (event_type (msg_details m)) ''pull_request.''"
      and no: "prAllowed h (event_head_user_login (msg_details m)) ?org ?repo gh m \<noteq> Inr True"
      using assms(8) by simp_all
    show ?thesis
    proof (cases "prAllowed h (event_head_user_login (msg_details m)) ?org ?repo gh m")
      case (Inl e)
      then show ?thesis
        using False pr by (simp add: permission_run_def Let_def)
    next
      case (Inr b)
      with no have "\<not> b" by simp
      with Inr show ?thesis
        using False pr by (simp add: permission_run_def Let_def)
    qed
  qed
  have "fst (jobHandler_run h now message w)
          = (if allowed then [''nonexistent'', taskGroupId] else [''nonexistent''])"
    using run held by simp
  moreover have "snd (jobHandler_run h now message w) = jobHandler h now message w"
    by (rule jobHandler_run_outcome)
  ultimately have history: "jobHandler_run h now message w =
      (if allowed then [''nonexistent'', taskGroupId] else [''nonexistent''],
       jobHandler h now message w)"
    by (simp add: prod_eq_iff)
  have effects: "(\<exists>new. check_runs w' = check_runs w @ new
            \<and> (\<forall>c \<in> set new. \<exists>t \<in> set (gc_tasks graph).
                  cc_details_url c =
                    INSPECTOR_URL @ taskGroupId @ ''/tasks/'' @ gt_taskId t @ ''/details''))
       \<and> (\<forall>k. CheckRuns w' k \<noteq> CheckRuns w k \<longrightarrow>
             fst k = taskGroupId
             \<and> (\<exists>c. CheckRuns w' k = Some c \<and> check_taskGroupId c = taskGroupId))
       \<and> (\<forall>k. Builds w' k \<noteq> Builds w k \<longrightarrow>
             k = taskGroupId \<and> (\<exists>b. Builds w' k = Some b \<and> build_taskGroupId b = taskGroupId))
       \<and> queue_tasks w' = queue_tasks w @ (if allowed then ?sent else [])"
  proof (cases allowed)
    case False
    have "jobHandler h now message w = permission h gh m ?org ?repo sha ?pn graph now w"
      using jobHandler_permission [OF assms(1-7)] .
    then have "w' = snd (permission h gh m ?org ?repo sha ?pn graph now w)"
      using assms(10) by simp
    moreover have "startsWith (event_type (msg_details m)) ''pull_request.''
        \<and> prAllowed h (event_head_user_login (msg_details m)) ?org ?repo gh m \<noteq> Inr True"
      using False assms(8) by simp
    ultimately have same: "check_runs w' = check_runs w" "CheckRuns w' = CheckRuns w"
      "Builds w' = Builds w" "queue_tasks w' = queue_tasks w"
      using permission_stopped [of m h ?org ?repo gh w' sha ?pn graph now w] by simp_all
    have "\<exists>new. check_runs w' = check_runs w @ new
        \<and> (\<forall>c \<in> set new. \<exists>t \<in> set (gc_tasks graph).
              cc_details_url c =
                INSPECTOR_URL @ taskGroupId @ ''/tasks/'' @ gt_taskId t @ ''/details'')"
      using same by (intro exI [of _ "[]"]) simp
    with same False show ?thesis
      by simp
  next
    case True
    then have handler: "jobHandler h now message w = submit h gh m ?org ?repo sha graph now w"
      using jobHandler_submit [OF assms(1-7)] assms(8) by simp
    obtain r w1 where created: "createTasks h (gc_scopes graph) (gc_tasks graph) w = (r, w1)"
      by (cases "createTasks h (gc_scopes graph) (gc_tasks graph) w") auto
    have frame1: "Builds w1 = Builds w" "CheckRuns w1 = CheckRuns w"
      "check_runs w1 = check_runs w"
      using createTasks_frame [of h "gc_scopes graph" "gc_tasks graph" w] created by simp_all
    have queue1: "queue_tasks w1 = queue_tasks w @ ?sent"
      using createTasks_queue_exact [of h "gc_scopes graph" "gc_tasks graph" w] created by simp
    have try_block: "submit_try h graph ''nonexistent'' w = (taskGroupId, r, w1)"
      using tasks tg created by (simp add: submit_try_def)
    obtain groupState w2 where
      before: "Builds w2 = Builds w" "CheckRuns w2 = CheckRuns w" "check_runs w2 = check_runs w"
        "queue_tasks w2 = queue_tasks w1"
      and after: "\<exists>br. bookkeeping h gh m ?org ?repo sha graph groupState taskGroupId now w2
                          = (br, w')"
    proof (cases r)
      case None
      obtain br w3 where bk:
        "bookkeeping h gh m ?org ?repo sha graph
           \<lparr>gs_status = ''queued'', gs_conclusion = None, gs_completed_at = None\<rparr>
           taskGroupId now w1 = (br, w3)"
        by (cases "bookkeeping h gh m ?org ?repo sha graph
                     \<lparr>gs_status = ''queued'', gs_conclusion = None, gs_completed_at = None\<rparr>
                     taskGroupId now w1") auto
      have "w' = w3"
        using assms(10) handler try_block None bk
        by (simp add: submit_def split: option.splits)
      with bk frame1 that show ?thesis
        by blast
    next
      case (Some e)
      obtain thrown w2 where
        commented: "createExceptionComment gh ?org ?repo sha e None w1 = (thrown, w2)"
        by (cases "createExceptionComment gh ?org ?repo sha e None w1") auto
      have frame2: "Builds w2 = Builds w1" "CheckRuns w2 = CheckRuns w1"
        "check_runs w2 = check_runs w1" "queue_tasks w2 = queue_tasks w1"
        using createExceptionComment_frame [of gh ?org ?repo sha e None w1] commented
        by simp_all
      obtain br w3 where bk:
        "bookkeeping h gh m ?org ?repo sha graph
           \<lparr>gs_status = ''completed'', gs_conclusion = Some ''failure'',
            gs_completed_at = Some (toISOString h now)\<rparr>
           taskGroupId now w2 = (br, w3)"
        by (cases "bookkeeping h gh m ?org ?repo sha graph
                     \<lparr>gs_status = ''completed'', gs_conclusion = Some ''failure'',
                      gs_completed_at = Some (toISOString h now)\<rparr>
                     taskGroupId now w2") auto
      have "w' = w3"
        using assms(10) handler try_block Some commented bk
        by (simp add: submit_def split: option.splits)
      moreover have "Builds w2 = Builds w" "CheckRuns w2 = CheckRuns w"
        "check_runs w2 = check_runs w"
        using frame1 frame2 by simp_all
      ultimately show ?thesis
        using bk frame2(4) that by blast
    qed
    from after obtain br where
      "bookkeeping h gh m ?org ?repo sha graph groupState taskGroupId now w2 = (br, w')"
      by blast
    note e = bookkeeping_effect [OF this]
    from e before have runs: "\<exists>new. check_runs w' = check_runs w @ new
        \<and> (\<forall>c \<in> set new. \<exists>t \<in> set (gc_tasks graph).
              cc_details_url c =
                INSPECTOR_URL @ taskGroupId @ ''/tasks/'' @ gt_taskId t @ ''/details'')"
      by auto
    from e before have records: "\<forall>k. CheckRuns w' k \<noteq> CheckRuns w k \<longrightarrow>
        fst k = taskGroupId
        \<and> (\<exists>c. CheckRuns w' k = Some c \<and> check_taskGroupId c = taskGroupId)"
      by auto
    from e before have builds: "\<forall>k. Builds w' k \<noteq> Builds w k \<longrightarrow>
        k = taskGroupId \<and> (\<exists>b. Builds w' k = Some b \<and> build_taskGroupId b = taskGroupId)"
      by auto
    from e before queue1 have queue: "queue_tasks w' = queue_tasks w @ ?sent"
      by simp
    from queue True have "queue_tasks w' = queue_tasks w @ (if allowed then ?sent else [])"
      by simp
    with runs records builds show ?thesis
      by blast
  qed
  from effects have queue: "queue_tasks w' = queue_tasks w @ (if allowed then ?sent else [])"
    by blast
  have all_sent: "allowed \<and> (\<forall>t \<in> set (gc_tasks graph).
        queue_createTask h (gc_scopes graph) (gt_taskId t) (gt_task t) = None)
      \<longrightarrow> queue_tasks w' = queue_tasks w @
            map (\<lambda>t. (gc_scopes graph, gt_taskId t, gt_task t)) (gc_tasks graph)"
  proof
    assume a: "allowed \<and> (\<forall>t \<in> set (gc_tasks graph).
        queue_createTask h (gc_scopes graph) (gt_taskId t) (gt_task t) = None)"
    then have "?sent = map (\<lambda>t. (gc_scopes graph, gt_taskId t, gt_task t)) (gc_tasks graph)"
      by simp
    with a queue show "queue_tasks w' = queue_tasks w @
        map (\<lambda>t. (gc_scopes graph, gt_taskId t, gt_task t)) (gc_tasks graph)"
      by simp
  qed
  from effects all_sent history show ?thesis
    by blast
qed

theorem jobHandler_taskGroupId_witness:
  "(\<exists>b. Builds (snd (jobHandler scenario_env_mixed 200 scenario_push empty_world)) ''tgA''
           = Some b \<and> build_taskGroupId b = ''tgA'')
   \<and> (\<exists>c. CheckRuns (snd (jobHandler scenario_env_mixed 200 scenario_push empty_world))
             (''tgA'', ''t2'') = Some c \<and> check_taskGroupId c = ''tgA'')
   \<and> map cc_details_url
       (check_runs (snd (jobHandler scenario_env_mixed 200 scenario_push empty_world)))
     = [INSPECTOR_URL @ ''tgA/tasks/t1/details'', INSPECTOR_URL @ ''tgA/tasks/t2/details'']
   \<and> queue_tasks (snd (jobHandler scenario_env_mixed 200 scenario_push empty_world))
     = [(gc_scopes scenario_mixed_graph, ''t1'', \<lparr>def_taskGroupId = ''tgA''\<rparr>),
        (gc_scopes scenario_mixed_graph, ''t2'', \<lparr>def_taskGroupId = ''tgB''\<rparr>)]
   \<and> jobHandler_run scenario_env_mixed 200 scenario_push empty_world
     = ([''nonexistent'', ''tgA''], Inr (), scenario_mixed_delivered)
   \<and> queue_tasks (snd (jobHandler
         (scenario_env_mixed\<lparr>prAllowed := (\<lambda>login organization repository gh m. Inr False)\<rparr>)
         200 scenario_pull_request empty_world)) = []
   \<and> fst (jobHandler_run
         (scenario_env_mixed\<lparr>prAllowed := (\<lambda>login organization repository gh m. Inr False)\<rparr>)
         200 scenario_pull_request empty_world) = [''nonexistent'']"
proof -
  let ?h = scenario_env_mixed and ?m = "decoded scenario_push"
  let ?d = "scenario_env_mixed\<lparr>prAllowed := (\<lambda>login organization repository gh m. Inr False)\<rparr>"
  let ?p = "decoded scenario_pull_request"
  let ?w' = "snd (jobHandler scenario_env_mixed 200 scenario_push empty_world)"
  have auth: "getInstallationGithub ?h (msg_installationId scenario_push) = Inr scenario_github"
    by (simp add: scenario_env_mixed_def scenario_env_def)
  have sha: "resolve_sha scenario_github ?m = Inr ''cafe01''"
    by (simp add: resolve_sha_def decoded_def scenario_push_def)
  have fetch: "repos_getContent scenario_github (msg_organization ?m) (msg_repository ?m)
                 ''.taskcluster.yml'' ''cafe01'' = Inr ''dmVyc2lvbjogMQ==''"
    by (simp add: scenario_github_def)
  have yaml: "yaml_safeLoad ?h (base64_toString ?h ''dmVyc2lvbjogMQ=='') = None"
    by (simp add: scenario_env_mixed_def scenario_env_def)
  have graph: "intree ?h (base64_toString ?h ''dmVyc2lvbjogMQ=='') ?m = Inr scenario_mixed_graph"
    by (simp add: scenario_env_mixed_def scenario_env_def)
  have tasks: "gc_tasks scenario_mixed_graph \<noteq> []"
    by (simp add: scenario_mixed_graph_def)
  have allowed: "True \<longleftrightarrow>
      (startsWith (event_type (msg_details ?m)) ''pull_request.'' \<longrightarrow>
       prAllowed ?h (event_head_user_login (msg_details ?m)) (msg_organization ?m)
         (msg_repository ?m) scenario_github ?m = Inr True)"
    by (simp add: scenario_env_mixed_def scenario_env_def)
  have tg: "''tgA'' = def_taskGroupId (gt_task (hd (gc_tasks scenario_mixed_graph)))"
    by (simp add: scenario_mixed_graph_def)
  have accepted: "\<forall>t \<in> set (gc_tasks scenario_mixed_graph).
      queue_createTask ?h (gc_scopes scenario_mixed_graph) (gt_taskId t) (gt_task t) = None"
    by (simp add: scenario_env_mixed_def scenario_env_def)
  note all = jobHandler_taskGroupId
    [OF refl auth sha fetch yaml graph tasks allowed tg refl, of 200 empty_world]
  have delivered: "jobHandler ?h 200 scenario_push empty_world = (Inr (), scenario_mixed_delivered)"
    by (rule scenario_mixed_delivery)
  have world: "?w' = scenario_mixed_delivered"
    by (simp add: scenario_mixed_delivery)
  have "Builds ?w' ''tgA'' \<noteq> Builds empty_world ''tgA''"
    unfolding world by (simp add: scenario_mixed_delivered_def empty_world_def)
  with all have build: "\<exists>b. Builds ?w' ''tgA'' = Some b \<and> build_taskGroupId b = ''tgA''"
    by blast
  have "CheckRuns ?w' (''tgA'', ''t2'') \<noteq> CheckRuns empty_world (''tgA'', ''t2'')"
    unfolding world by (simp add: scenario_mixed_delivered_def empty_world_def)
  with all have check:
    "\<exists>c. CheckRuns ?w' (''tgA'', ''t2'') = Some c \<and> check_taskGroupId c = ''tgA''"
    by blast
  have urls: "map cc_details_url (check_runs ?w')
      = [INSPECTOR_URL @ ''tgA/tasks/t1/details'', INSPECTOR_URL @ ''tgA/tasks/t2/details'']"
    unfolding world by (simp add: scenario_mixed_delivered_def check_run_request_def)
  from all accepted have "queue_tasks ?w' = queue_tasks empty_world @
      map (\<lambda>t. (gc_scopes scenario_mixed_graph, gt_taskId t, gt_task t))
        (gc_tasks scenario_mixed_graph)"
    by blast
  then have sent: "queue_tasks ?w'
      = [(gc_scopes scenario_mixed_graph, ''t1'', \<lparr>def_taskGroupId = ''tgA''\<rparr>),
         (gc_scopes scenario_mixed_graph, ''t2'', \<lparr>def_taskGroupId = ''tgB''\<rparr>)]"
    by (simp add: empty_world_def scenario_mixed_graph_def)
  from all have "jobHandler_run ?h 200 scenario_push empty_world
      = ([''nonexistent'', ''tgA''], jobHandler ?h 200 scenario_push empty_world)"
    by simp
  then have held: "jobHandler_run ?h 200 scenario_push empty_world
      = ([''nonexistent'', ''tgA''], Inr (), scenario_mixed_delivered)"
    unfolding delivered .
  have auth': "getInstallationGithub ?d (msg_installationId scenario_pull_request)
                 = Inr scenario_github"
    by (simp add: scenario_env_mixed_def scenario_env_def)
  have sha': "resolve_sha scenario_github ?p = Inr ''cafe02''"
    by (simp add: resolve_sha_def decoded_def scenario_pull_request_def)
  have fetch': "repos_getContent scenario_github (msg_organization ?p) (msg_repository ?p)
                  ''.taskcluster.yml'' ''cafe02'' = Inr ''dmVyc2lvbjogMQ==''"
    by (simp add: scenario_github_def)
  have yaml': "yaml_safeLoad ?d (base64_toString ?d ''dmVyc2lvbjogMQ=='') = None"
    by (simp add: scenario_env_mixed_def scenario_env_def)
  have graph': "intree ?d (base64_toString ?d ''dmVyc2lvbjogMQ=='') ?p = Inr scenario_mixed_graph"
    by (simp add: scenario_env_mixed_def scenario_env_def)
  have denied: "False \<longleftrightarrow>
      (startsWith (event_type (msg_details ?p)) ''pull_request.'' \<longrightarrow>
       prAllowed ?d (event_head_user_login (msg_details ?p)) (msg_organization ?p)
         (msg_repository ?p) scenario_github ?p = Inr True)"
    by (simp add: scenario_env_mixed_def scenario_env_def decoded_def scenario_pull_request_def
        startsWith_def)
  note stopped = jobHandler_taskGroupId
    [OF refl auth' sha' fetch' yaml' graph' tasks denied tg refl, of 200 empty_world]
  from stopped have "queue_tasks (snd (jobHandler ?d 200 scenario_pull_request empty_world))
      = queue_tasks empty_world @ []"
    by simp
  then have none: "queue_tasks (snd (jobHandler ?d 200 scenario_pull_request empty_world)) = []"
    by (simp add: empty_world_def)
  from stopped have kept: "fst (jobHandler_run ?d 200 scenario_pull_request empty_world)
      = [''nonexistent'']"
    by simp
  from build check urls sent held none kept show ?thesis
    by blast
qed

end
